theory Spec2Isabelle
  imports Complex_Main
begin

section \<open>Values\<close>

text \<open>
  JavaScript numbers are modelled as reals: no claim below does arithmetic on a height or a
  coordinate, so rounding plays no part; \<open>NaN\<close>, the one number that is not \<open>===\<close> to itself,
  is not among them. The value \<open>undefined\<close> of an optional field, of a
  sampled property and of a function that returns nothing is \<open>None\<close>. An exception is a value
  of type \<open>error\<close>; reading a member of \<open>undefined\<close> is the \<open>TypeError\<close> the engine raises.
\<close>

datatype error = DeveloperError string | Error string | TypeError

datatype Cartesian3 = Cartesian3 real real real

datatype Color = Color real real real real

datatype Rectangle = Rectangle real real real real

datatype DistanceDisplayCondition = DistanceDisplayCondition real real

datatype HeightReference = NONE | CLAMP_TO_GROUND | RELATIVE_TO_GROUND

datatype CornerType = ROUNDED | MITERED | BEVELED

datatype GeometryOffsetAttribute = OffsetNONE | OffsetTOP | OffsetALL

datatype VertexFormat = PerInstanceColorAppearance_VERTEX_FORMAT | MaterialSupport_TEXTURED_vertexFormat

text \<open>
  A resolved height is a number or, after reference resolution, the string-like sentinel of
  \<open>GroundGeometryUpdater.CLAMP_TO_GROUND\<close>; both live in one type so that \<open>===\<close> between them
  is equality.
\<close>

datatype JSValue = JSNumber real | JSString string

type_synonym ShadowMode = nat

type_synonym ClassificationType = nat

definition Color_WHITE :: Color where
  "Color_WHITE = Color 1 1 1 1"

definition Cartesian3_ZERO :: Cartesian3 where
  "Cartesian3_ZERO = Cartesian3 0 0 0"

definition defaultOffset :: Cartesian3 where
  "defaultOffset = Cartesian3_ZERO"

text \<open>
  \<open>Cartesian3.clone(cartesian, result)\<close> gives back \<open>undefined\<close> for an undefined argument and
  otherwise a point with the coordinates of its argument.
\<close>

fun Cartesian3_clone :: "Cartesian3 option \<Rightarrow> Cartesian3 option" where
  "Cartesian3_clone None = None"
| "Cartesian3_clone (Some (Cartesian3 a b c)) = Some (Cartesian3 a b c)"

section \<open>Properties\<close>

text \<open>
  A property is a time-indexed value source: \<open>isConstant\<close> and \<open>getValue(time)\<close>, which may
  return \<open>undefined\<close>. The scratch \<open>result\<close> argument of \<open>getValue\<close> only saves an allocation
  and is left out.
\<close>

record ('t, 'v) Property =
  isConstant :: bool
  getValue :: "'t \<Rightarrow> 'v option"

text \<open>
  The material bound to an updater is either a \<open>ColorMaterialProperty\<close>, which carries its
  \<open>color\<close> property, or a material of another class; the flag is its \<open>isConstant\<close>.
\<close>

datatype 't MaterialProperty =
  ColorMaterialProperty bool "('t, Color) Property option"
| OtherMaterialProperty bool

text \<open>
  Modelled from the spec: \<open>Core/defined.js\<close> and \<open>Core/defaultValue.js\<close> are not among the
  sources. A value is defined when it is not \<open>undefined\<close>; \<open>defaultValue(a, b)\<close> is \<open>a\<close> when
  \<open>a\<close> is defined and \<open>b\<close> otherwise (the descriptor table: defaults applied when unset).
\<close>

definition defined :: "'a option \<Rightarrow> bool" where
  "defined v = (v \<noteq> None)"

definition defaultValue :: "'a option \<Rightarrow> 'a option \<Rightarrow> 'a option" where
  "defaultValue a b = (case a of None \<Rightarrow> b | Some v \<Rightarrow> Some v)"

text \<open>
  Modelled from the spec: \<open>DataSources/Property.js\<close> is not among the sources. The spec gives
  the sampler's contract: \<open>isConstant(property) -> bool\<close> reports whether a bound value is
  constant over time, \<open>getValueOrUndefined(property, time) -> optional T\<close>, and
  \<open>getValueOrDefault(property, time, default, scratch) -> T\<close>. A property that is not bound
  has nothing that varies and samples to \<open>undefined\<close>.
\<close>

definition Property_isConstant :: "('t, 'v) Property option \<Rightarrow> bool" where
  "Property_isConstant property = (case property of None \<Rightarrow> True | Some p \<Rightarrow> isConstant p)"

definition Property_getValueOrUndefined :: "('t, 'v) Property option \<Rightarrow> 't \<Rightarrow> 'v option" where
  "Property_getValueOrUndefined property time =
     (case property of None \<Rightarrow> None | Some p \<Rightarrow> getValue p time)"

definition Property_getValueOrDefault :: "('t, 'v) Property option \<Rightarrow> 't \<Rightarrow> 'v \<Rightarrow> 'v" where
  "Property_getValueOrDefault property time valueDefault =
     (case property of
        None \<Rightarrow> valueDefault
      | Some p \<Rightarrow> (case getValue p time of None \<Rightarrow> valueDefault | Some v \<Rightarrow> v))"

text \<open>
  \<open>Property.isConstant(this._materialProperty)\<close> and
  \<open>this._materialProperty instanceof ColorMaterialProperty\<close>, on a material that may be
  \<open>undefined\<close>.
\<close>

fun MaterialProperty_isConstant :: "'t MaterialProperty option \<Rightarrow> bool" where
  "MaterialProperty_isConstant None = True"
| "MaterialProperty_isConstant (Some (ColorMaterialProperty c p)) = c"
| "MaterialProperty_isConstant (Some (OtherMaterialProperty c)) = c"

fun instanceofColorMaterialProperty :: "'t MaterialProperty option \<Rightarrow> bool" where
  "instanceofColorMaterialProperty (Some (ColorMaterialProperty c p)) = True"
| "instanceofColorMaterialProperty m = False"

section \<open>The stripe descriptor, the entity and the options\<close>

text \<open>
  \<open>StripeGraphics\<close>: one optional property per field. The accessors that
  \<open>createPropertyDescriptor\<close> installs (not among the sources) are modelled as plain fields:
  reading gives the stored property, assigning stores it.
\<close>

record 't StripeGraphics =
  "show" :: "('t, bool) Property option"
  positions :: "('t, Cartesian3 list) Property option"
  width :: "('t, real) Property option"
  height :: "('t, real) Property option"
  heightReference :: "('t, HeightReference) Property option"
  extrudedHeight :: "('t, real) Property option"
  extrudedHeightReference :: "('t, HeightReference) Property option"
  cornerType :: "('t, CornerType) Property option"
  granularity :: "('t, real) Property option"
  fill :: "('t, bool) Property option"
  material :: "'t MaterialProperty option"
  outline :: "('t, bool) Property option"
  outlineColor :: "('t, Color) Property option"
  outlineWidth :: "('t, real) Property option"
  shadows :: "('t, ShadowMode) Property option"
  distanceDisplayCondition :: "('t, DistanceDisplayCondition) Property option"
  classificationType :: "('t, ClassificationType) Property option"
  zIndex :: "('t, real) Property option"

record 't Entity =
  isShowing :: bool
  isAvailable :: "'t \<Rightarrow> bool"
  entity_stripe :: "'t StripeGraphics option"

text \<open>
  \<open>class StripeGeometryOptions\<close>. Its fields carry the prefix \<open>opt_\<close> here, since the
  descriptor has fields of the same names.
\<close>

record 't StripeGeometryOptions =
  opt_id :: "'t Entity"
  opt_vertexFormat :: "VertexFormat option"
  opt_positions :: "Cartesian3 list option"
  opt_width :: "real option"
  opt_cornerType :: "CornerType option"
  opt_height :: "JSValue option"
  opt_extrudedHeight :: "JSValue option"
  opt_granularity :: "real option"
  opt_offsetAttribute :: "GeometryOffsetAttribute option"

definition new_StripeGeometryOptions :: "'t Entity \<Rightarrow> 't StripeGeometryOptions" where
  "new_StripeGeometryOptions entity =
     \<lparr>opt_id = entity, opt_vertexFormat = None, opt_positions = None, opt_width = None,
      opt_cornerType = None, opt_height = None, opt_extrudedHeight = None,
      opt_granularity = None, opt_offsetAttribute = None\<rparr>"

text \<open>
  The fields of a \<open>StripeGeometryUpdater\<close> that the methods below read. The base class
  \<open>GeometryUpdater\<close>, which assigns them, is not among the sources; each may still be
  \<open>undefined\<close> where the method guards it or only dereferences it.
\<close>

record 't StripeGeometryUpdater =
  this_entity :: "'t Entity"
  this_options :: "'t StripeGeometryOptions"
  this_fillEnabled :: bool
  this_onTerrain :: bool
  this_showProperty :: "('t, bool) Property option"
  this_fillProperty :: "('t, bool) Property option"
  this_materialProperty :: "'t MaterialProperty option"
  this_distanceDisplayConditionProperty :: "('t, DistanceDisplayCondition) Property option"
  this_terrainOffsetProperty :: "('t, Cartesian3) Property option"

record 't DynamicStripeGeometryUpdater =
  dynamicOptions :: "'t StripeGeometryOptions"

text \<open>
  The output of \<open>createFillGeometryInstance\<close>. The classes of the geometry and of the
  attributes are defined outside the sources, so their constructors and factories are
  collaborators (below). An attribute is modelled by what it carries: a flag for the show
  attribute, a near/far pair, a colour, an offset vector; \<open>undefined\<close> offset and colour
  attributes are \<open>None\<close>. A geometry is kept as the options it was built from.
\<close>

datatype 't StripeGeometry = StripeGeometry "'t StripeGeometryOptions"

record GeometryInstanceAttributes =
  attr_show :: bool
  attr_distanceDisplayCondition :: DistanceDisplayCondition
  attr_offset :: "Cartesian3 option"
  attr_color :: "Color option"

record 't GeometryInstance =
  instance_id :: "'t Entity"
  geometry :: "'t StripeGeometry"
  attributes :: GeometryInstanceAttributes

section \<open>Collaborators\<close>

text \<open>
  The static helpers of \<open>GroundGeometryUpdater\<close>, the terrain height approximation, the
  bounding rectangle of \<open>StripeGeometry\<close> and the constant \<open>Iso8601.MINIMUM_VALUE\<close> are used by
  the updater but defined outside the sources; so are the constructor of \<open>StripeGeometry\<close>,
  the constructor of \<open>ShowGeometryInstanceAttribute\<close>, which is handed the value of an \<open>&&\<close>
  chain, \<open>undefined\<close> included, and the factories of the other attributes. They are parameters
  of the model, and a constructor or factory may throw. A theorem below speaks of an arbitrary
  choice of them; the one condition put on a collaborator, \<open>rectangle_reads_resolved_shape\<close>,
  stands in the statement that needs it.
\<close>

record MinimumMaximumHeights =
  minimumTerrainHeight :: real
  maximumTerrainHeight :: real

record 't Collaborators =
  Iso8601_MINIMUM_VALUE :: 't
  computeGeometryOffsetAttribute ::
    "real option \<Rightarrow> HeightReference \<Rightarrow> real option \<Rightarrow> HeightReference \<Rightarrow> GeometryOffsetAttribute option"
  getGeometryHeight :: "real option \<Rightarrow> HeightReference \<Rightarrow> JSValue option"
  getGeometryExtrudedHeight :: "real option \<Rightarrow> HeightReference \<Rightarrow> JSValue option"
  GroundGeometryUpdater_CLAMP_TO_GROUND :: JSValue
  computeRectangle :: "'t StripeGeometryOptions \<Rightarrow> Rectangle"
  getMinimumMaximumHeights :: "Rectangle \<Rightarrow> MinimumMaximumHeights"
  new_StripeGeometry :: "'t StripeGeometryOptions \<Rightarrow> error + 't StripeGeometry"
  new_ShowGeometryInstanceAttribute :: "bool option \<Rightarrow> error + bool"
  fromDistanceDisplayCondition ::
    "DistanceDisplayCondition option \<Rightarrow> error + DistanceDisplayCondition"
  fromColor :: "Color \<Rightarrow> error + Color"
  fromCartesian3 :: "Cartesian3 \<Rightarrow> error + Cartesian3"

section \<open>StripeGeometryUpdater\<close>

text \<open>
  \<open>_isHidden\<close> of the static updater. \<open>GeometryUpdater.prototype._isHidden\<close> is the base
  predicate, a parameter; \<open>||\<close> reaches it only when positions and width are both defined.
\<close>

definition isHidden ::
    "('t StripeGeometryUpdater \<Rightarrow> 't Entity \<Rightarrow> 't StripeGraphics \<Rightarrow> bool) \<Rightarrow>
     't StripeGeometryUpdater \<Rightarrow> 't Entity \<Rightarrow> 't StripeGraphics \<Rightarrow> bool" where
  "isHidden GeometryUpdater_isHidden this entity stripe =
     (\<not> defined (positions stripe) \<or>
      \<not> defined (width stripe) \<or>
      GeometryUpdater_isHidden this entity stripe)"

text \<open>
  \<open>createFillGeometryInstance(time)\<close>. The result pairs what the call returns or throws with
  the updater afterwards. The two checks at the top stand between the markers of the debug
  pragma; the model is the source as written, with the checks in place, and
  \<open>Check.defined\<close> holds of every value of the type of times.

  \<open>a && b\<close> is \<open>a\<close> when \<open>a\<close> is falsy and \<open>b\<close> otherwise, and evaluates \<open>b\<close> only then: a
  sample that is \<open>undefined\<close> ends the chain with the value \<open>undefined\<close>, not \<open>false\<close>, and
  a missing show or fill property throws only when it is reached. The steps follow the order
  of the source: the show attribute, the display condition, the colour, the offset, the
  geometry.
\<close>

definition createFillGeometryInstance ::
    "'t Collaborators \<Rightarrow> 't StripeGeometryUpdater \<Rightarrow> 't \<Rightarrow>
     (error + 't GeometryInstance) \<times> 't StripeGeometryUpdater" where
  "createFillGeometryInstance env this time =
     (if \<not> this_fillEnabled this
      then (Inl (DeveloperError ''This instance does not represent a filled geometry.''), this)
      else
        (let entity = this_entity this;
             available = isAvailable entity time;
             showArgument =
               (if \<not> available then Inr (Some False)
                else if \<not> isShowing entity then Inr (Some False)
                else (case this_showProperty this of
                        None \<Rightarrow> Inl TypeError
                      | Some sp \<Rightarrow>
                          (case getValue sp time of
                             None \<Rightarrow> Inr None
                           | Some False \<Rightarrow> Inr (Some False)
                           | Some True \<Rightarrow>
                               (case this_fillProperty this of
                                  None \<Rightarrow> Inl TypeError
                                | Some fp \<Rightarrow> Inr (getValue fp time)))));
             color =
               (case this_materialProperty this of
                  Some (ColorMaterialProperty c colorProperty) \<Rightarrow>
                    (let currentColor =
                           (case colorProperty of
                              None \<Rightarrow> None
                            | Some cp \<Rightarrow>
                                if isConstant cp \<or> available
                                then getValue cp time else None);
                         currentColor =
                           (case currentColor of None \<Rightarrow> Color_WHITE | Some col \<Rightarrow> col)
                     in case fromColor env currentColor of
                          Inl e \<Rightarrow> Inl e
                        | Inr attribute \<Rightarrow> Inr (Some attribute))
                | _ \<Rightarrow> Inr None);
             offset =
               (if defined (opt_offsetAttribute (this_options this))
                then (case fromCartesian3 env
                             (Property_getValueOrDefault
                                (this_terrainOffsetProperty this) time defaultOffset) of
                        Inl e \<Rightarrow> Inl e
                      | Inr attribute \<Rightarrow> Inr (Some attribute))
                else Inr None)
         in case showArgument of
              Inl e \<Rightarrow> (Inl e, this)
            | Inr showValue \<Rightarrow>
          (case new_ShowGeometryInstanceAttribute env showValue of
              Inl e \<Rightarrow> (Inl e, this)
            | Inr showAttribute \<Rightarrow>
          (case this_distanceDisplayConditionProperty this of
              None \<Rightarrow> (Inl TypeError, this)
            | Some dp \<Rightarrow>
          (case fromDistanceDisplayCondition env (getValue dp time) of
              Inl e \<Rightarrow> (Inl e, this)
            | Inr distanceDisplayConditionAttribute \<Rightarrow>
          (case color of
              Inl e \<Rightarrow> (Inl e, this)
            | Inr colorAttribute \<Rightarrow>
          (case offset of
              Inl e \<Rightarrow> (Inl e, this)
            | Inr offsetAttribute \<Rightarrow>
          (case new_StripeGeometry env (this_options this) of
              Inl e \<Rightarrow> (Inl e, this)
            | Inr stripeGeometry \<Rightarrow>
                (Inr \<lparr>instance_id = entity,
                      geometry = stripeGeometry,
                      attributes =
                        \<lparr>attr_show = showAttribute,
                         attr_distanceDisplayCondition = distanceDisplayConditionAttribute,
                         attr_offset = offsetAttribute,
                         attr_color = colorAttribute\<rparr>\<rparr>,
                 this)))))))))"

text \<open>\<open>createOutlineGeometryInstance(time)\<close>: the body is one \<open>throw\<close>.\<close>

definition createOutlineGeometryInstance ::
    "'t StripeGeometryUpdater \<Rightarrow> 't \<Rightarrow> (error + 't GeometryInstance) \<times> 't StripeGeometryUpdater" where
  "createOutlineGeometryInstance this time =
     (Inl (Error ''outline is an unsupported function''), this)"

text \<open>
  \<open>_computeCenter(time, result)\<close>; \<open>Inr None\<close> is the bare \<open>return\<close>. The index is computed as
  the source does, by a division of numbers and \<open>Math.floor\<close>.
\<close>

definition computeCenter :: "'t StripeGeometryUpdater \<Rightarrow> 't \<Rightarrow> error + Cartesian3 option" where
  "computeCenter this time =
     (case entity_stripe (this_entity this) of
        None \<Rightarrow> Inl TypeError
      | Some s \<Rightarrow>
          (case Property_getValueOrUndefined (positions s) time of
             None \<Rightarrow> Inr None
           | Some ps \<Rightarrow>
               if length ps = 0 then Inr None
               else Inr (Cartesian3_clone
                           (Some (ps ! nat \<lfloor>real (length ps) / 2.0\<rfloor>)))))"

text \<open>
  \<open>_isDynamic(entity, stripe)\<close>. \<open>stripe.positions.isConstant\<close> reads the property without a
  guard, the other fields go through \<open>Property.isConstant\<close>.
\<close>

definition isDynamic ::
    "'t StripeGeometryUpdater \<Rightarrow> 't Entity \<Rightarrow> 't StripeGraphics \<Rightarrow> error + bool" where
  "isDynamic this entity stripe =
     (case positions stripe of
        None \<Rightarrow> Inl TypeError
      | Some positionsProperty \<Rightarrow>
          Inr (\<not> isConstant positionsProperty \<or>
               \<not> Property_isConstant (height stripe) \<or>
               \<not> Property_isConstant (extrudedHeight stripe) \<or>
               \<not> Property_isConstant (granularity stripe) \<or>
               \<not> Property_isConstant (width stripe) \<or>
               \<not> Property_isConstant (outlineWidth stripe) \<or>
               \<not> Property_isConstant (cornerType stripe) \<or>
               \<not> Property_isConstant (zIndex stripe) \<or>
               (this_onTerrain this \<and>
                \<not> MaterialProperty_isConstant (this_materialProperty this) \<and>
                \<not> instanceofColorMaterialProperty (this_materialProperty this))))"

text \<open>
  What a resolution pass leaves behind: the exception it threw, if any, the updater's
  options as the pass left them (the pass writes them field by field, so a pass that throws
  has written the fields before the throw), and the rectangles it sent to
  \<open>ApproximateTerrainHeights.getMinimumMaximumHeights\<close>, in order.
\<close>

record 't Pass =
  thrown :: "error option"
  options_after :: "'t StripeGeometryOptions"
  terrainQueries :: "Rectangle list"

text \<open>
  \<open>_setStaticOptions(entity, stripe)\<close>. \<open>stripe.positions.getValue\<close> and
  \<open>stripe.width.getValue\<close> read the property without a guard.
\<close>

definition setStaticOptions ::
    "'t Collaborators \<Rightarrow> 't StripeGeometryUpdater \<Rightarrow> 't Entity \<Rightarrow> 't StripeGraphics \<Rightarrow> 't Pass" where
  "setStaticOptions env this entity stripe =
     (let heightValue =
            Property_getValueOrUndefined (height stripe) (Iso8601_MINIMUM_VALUE env);
          heightReferenceValue =
            Property_getValueOrDefault (heightReference stripe) (Iso8601_MINIMUM_VALUE env) NONE;
          extrudedHeightValue =
            Property_getValueOrUndefined (extrudedHeight stripe) (Iso8601_MINIMUM_VALUE env);
          extrudedHeightReferenceValue =
            Property_getValueOrDefault (extrudedHeightReference stripe)
              (Iso8601_MINIMUM_VALUE env) NONE;
          heightValue =
            (if defined extrudedHeightValue \<and> \<not> defined heightValue then Some 0
             else heightValue);
          options = this_options this;
          options = options\<lparr>opt_vertexFormat :=
            Some (if instanceofColorMaterialProperty (this_materialProperty this)
                  then PerInstanceColorAppearance_VERTEX_FORMAT
                  else MaterialSupport_TEXTURED_vertexFormat)\<rparr>
      in case positions stripe of
           None \<Rightarrow> \<lparr>thrown = Some TypeError, options_after = options, terrainQueries = []\<rparr>
         | Some positionsProperty \<Rightarrow>
             (let options = options\<lparr>opt_positions :=
                    getValue positionsProperty (Iso8601_MINIMUM_VALUE env)\<rparr>
              in case width stripe of
                   None \<Rightarrow>
                     \<lparr>thrown = Some TypeError, options_after = options, terrainQueries = []\<rparr>
                 | Some widthProperty \<Rightarrow>
                     (let options = options\<lparr>opt_width :=
                            getValue widthProperty (Iso8601_MINIMUM_VALUE env)\<rparr>;
                          options = options\<lparr>opt_granularity :=
                            Property_getValueOrUndefined (granularity stripe)
                              (Iso8601_MINIMUM_VALUE env)\<rparr>;
                          options = options\<lparr>opt_cornerType :=
                            Property_getValueOrUndefined (cornerType stripe)
                              (Iso8601_MINIMUM_VALUE env)\<rparr>;
                          options = options\<lparr>opt_offsetAttribute :=
                            computeGeometryOffsetAttribute env heightValue heightReferenceValue
                              extrudedHeightValue extrudedHeightReferenceValue\<rparr>;
                          options = options\<lparr>opt_height :=
                            getGeometryHeight env heightValue heightReferenceValue\<rparr>;
                          extrudedHeightValue =
                            getGeometryExtrudedHeight env extrudedHeightValue
                              extrudedHeightReferenceValue
                      in if extrudedHeightValue = Some (GroundGeometryUpdater_CLAMP_TO_GROUND env)
                         then
                           (let rectangle = computeRectangle env options;
                                extrudedHeightValue =
                                  Some (JSNumber (minimumTerrainHeight
                                    (getMinimumMaximumHeights env rectangle)))
                            in \<lparr>thrown = None,
                                options_after = options\<lparr>opt_extrudedHeight := extrudedHeightValue\<rparr>,
                                terrainQueries = [rectangle]\<rparr>)
                         else
                           \<lparr>thrown = None,
                            options_after = options\<lparr>opt_extrudedHeight := extrudedHeightValue\<rparr>,
                            terrainQueries = []\<rparr>)))"

section \<open>DynamicStripeGeometryUpdater\<close>

text \<open>
  \<open>_setOptions(entity, stripe, time)\<close>: every field goes through a guarded helper, so the
  pass throws nothing.
\<close>

definition setOptions ::
    "'t Collaborators \<Rightarrow> 't DynamicStripeGeometryUpdater \<Rightarrow> 't Entity \<Rightarrow> 't StripeGraphics \<Rightarrow> 't \<Rightarrow>
     't Pass" where
  "setOptions env this entity stripe time =
     (let options = dynamicOptions this;
          heightValue = Property_getValueOrUndefined (height stripe) time;
          heightReferenceValue = Property_getValueOrDefault (heightReference stripe) time NONE;
          extrudedHeightValue = Property_getValueOrUndefined (extrudedHeight stripe) time;
          extrudedHeightReferenceValue =
            Property_getValueOrDefault (extrudedHeightReference stripe) time NONE;
          heightValue =
            (if defined extrudedHeightValue \<and> \<not> defined heightValue then Some 0
             else heightValue);
          options = options\<lparr>opt_positions :=
            Property_getValueOrUndefined (positions stripe) time\<rparr>;
          options = options\<lparr>opt_width := Property_getValueOrUndefined (width stripe) time\<rparr>;
          options = options\<lparr>opt_granularity :=
            Property_getValueOrUndefined (granularity stripe) time\<rparr>;
          options = options\<lparr>opt_cornerType :=
            Property_getValueOrUndefined (cornerType stripe) time\<rparr>;
          options = options\<lparr>opt_offsetAttribute :=
            computeGeometryOffsetAttribute env heightValue heightReferenceValue
              extrudedHeightValue extrudedHeightReferenceValue\<rparr>;
          options = options\<lparr>opt_height :=
            getGeometryHeight env heightValue heightReferenceValue\<rparr>;
          extrudedHeightValue =
            getGeometryExtrudedHeight env extrudedHeightValue extrudedHeightReferenceValue
      in if extrudedHeightValue = Some (GroundGeometryUpdater_CLAMP_TO_GROUND env)
         then
           (let rectangle = computeRectangle env options;
                extrudedHeightValue =
                  Some (JSNumber (minimumTerrainHeight (getMinimumMaximumHeights env rectangle)))
            in \<lparr>thrown = None,
                options_after = options\<lparr>opt_extrudedHeight := extrudedHeightValue\<rparr>,
                terrainQueries = [rectangle]\<rparr>)
         else
           \<lparr>thrown = None,
            options_after = options\<lparr>opt_extrudedHeight := extrudedHeightValue\<rparr>,
            terrainQueries = []\<rparr>)"

section \<open>StripeGraphics\<close>

text \<open>
  \<open>merge(source)\<close>: the check on \<open>source\<close> (in the debug pragma, modelled as written), then
  eighteen assignments in the order of the source. The result pairs the outcome with the
  descriptor afterwards.
\<close>

definition merge ::
    "'t StripeGraphics \<Rightarrow> 't StripeGraphics option \<Rightarrow> (error + unit) \<times> 't StripeGraphics" where
  "merge this source =
     (case source of
        None \<Rightarrow> (Inl (DeveloperError ''source is required.''), this)
      | Some src \<Rightarrow>
          (let this = this\<lparr>show := defaultValue (show this) (show src)\<rparr>;
               this = this\<lparr>positions := defaultValue (positions this) (positions src)\<rparr>;
               this = this\<lparr>width := defaultValue (width this) (width src)\<rparr>;
               this = this\<lparr>height := defaultValue (height this) (height src)\<rparr>;
               this = this\<lparr>heightReference :=
                 defaultValue (heightReference this) (heightReference src)\<rparr>;
               this = this\<lparr>extrudedHeight :=
                 defaultValue (extrudedHeight this) (extrudedHeight src)\<rparr>;
               this = this\<lparr>extrudedHeightReference :=
                 defaultValue (extrudedHeightReference this) (extrudedHeightReference src)\<rparr>;
               this = this\<lparr>cornerType := defaultValue (cornerType this) (cornerType src)\<rparr>;
               this = this\<lparr>granularity := defaultValue (granularity this) (granularity src)\<rparr>;
               this = this\<lparr>fill := defaultValue (fill this) (fill src)\<rparr>;
               this = this\<lparr>material := defaultValue (material this) (material src)\<rparr>;
               this = this\<lparr>outline := defaultValue (outline this) (outline src)\<rparr>;
               this = this\<lparr>outlineColor := defaultValue (outlineColor this) (outlineColor src)\<rparr>;
               this = this\<lparr>outlineWidth := defaultValue (outlineWidth this) (outlineWidth src)\<rparr>;
               this = this\<lparr>shadows := defaultValue (shadows this) (shadows src)\<rparr>;
               this = this\<lparr>distanceDisplayCondition :=
                 defaultValue (distanceDisplayCondition this) (distanceDisplayCondition src)\<rparr>;
               this = this\<lparr>classificationType :=
                 defaultValue (classificationType this) (classificationType src)\<rparr>;
               this = this\<lparr>zIndex := defaultValue (zIndex this) (zIndex src)\<rparr>
           in (Inr (), this)))"

section \<open>The statements of the specification\<close>

text \<open>
  \<open>isDynamic\<close> in the words of the specification: one of the eight listed properties is
  non-constant, or the shape renders on terrain with a non-constant material that is not a
  plain colour.
\<close>

definition spec_isDynamic :: "'t StripeGeometryUpdater \<Rightarrow> 't StripeGraphics \<Rightarrow> bool" where
  "spec_isDynamic this stripe =
     (list_ex (\<lambda>constant. \<not> constant)
        [Property_isConstant (positions stripe), Property_isConstant (height stripe),
         Property_isConstant (extrudedHeight stripe), Property_isConstant (granularity stripe),
         Property_isConstant (width stripe), Property_isConstant (outlineWidth stripe),
         Property_isConstant (cornerType stripe), Property_isConstant (zIndex stripe)] \<or>
      (this_onTerrain this \<and>
       \<not> MaterialProperty_isConstant (this_materialProperty this) \<and>
       \<not> instanceofColorMaterialProperty (this_materialProperty this)))"

text \<open>
  What \<open>merge\<close> promises for one field: a field that was defined keeps its value, a field
  that was undefined takes the value of the source.
\<close>

definition spec_merged_field :: "'a option \<Rightarrow> 'a option \<Rightarrow> 'a option \<Rightarrow> bool" where
  "spec_merged_field before source after =
     ((defined before \<longrightarrow> after = before) \<and> (\<not> defined before \<longrightarrow> after = source))"



text \<open>
  The values a resolution pass samples from a descriptor at one instant: the two heights with
  their references (\<open>NONE\<close> by default), and the four shape fields.
\<close>

definition sampledFields ::
    "'t StripeGraphics \<Rightarrow> 't \<Rightarrow>
     (real option \<times> HeightReference \<times> real option \<times> HeightReference) \<times>
     (Cartesian3 list option \<times> real option \<times> real option \<times> CornerType option)" where
  "sampledFields stripe time =
     ((Property_getValueOrUndefined (height stripe) time,
       Property_getValueOrDefault (heightReference stripe) time NONE,
       Property_getValueOrUndefined (extrudedHeight stripe) time,
       Property_getValueOrDefault (extrudedHeightReference stripe) time NONE),
      (Property_getValueOrUndefined (positions stripe) time,
       Property_getValueOrUndefined (width stripe) time,
       Property_getValueOrUndefined (granularity stripe) time,
       Property_getValueOrUndefined (cornerType stripe) time))"

text \<open>
  A condition on the bounding-rectangle collaborator: the rectangle is a function of the
  fields both passes have written when they ask for it (positions, width, granularity,
  corner type, offset attribute, height). It may not depend on the entity back-reference, on
  the vertex format, which only the static pass writes, or on the extruded height of an
  earlier pass, which is still in the record at that moment.
\<close>

definition rectangle_reads_resolved_shape :: "'t Collaborators \<Rightarrow> bool" where
  "rectangle_reads_resolved_shape env =
     (\<forall>a b. opt_positions a = opt_positions b \<and> opt_width a = opt_width b \<and>
            opt_granularity a = opt_granularity b \<and> opt_cornerType a = opt_cornerType b \<and>
            opt_offsetAttribute a = opt_offsetAttribute b \<and> opt_height a = opt_height b
            \<longrightarrow> computeRectangle env a = computeRectangle env b)"

section \<open>Concrete descriptors\<close>

text \<open>
  Data to run the model on. Times are natural numbers and the epoch is 0. Scenario A of the
  specification is three collinear points, width 2 and height 0 with all properties constant;
  scenario D has an extruded height and no height; \<open>clamped_stripe\<close> clamps the extrusion to
  the ground; \<open>unbound_width_stripe\<close> is that stripe without a width property;
  \<open>moving_stripe\<close> has a height that changes at time 3 only.
\<close>

definition ConstantProperty :: "'v \<Rightarrow> ('t, 'v) Property" where
  "ConstantProperty v = \<lparr>isConstant = True, getValue = (\<lambda>time. Some v)\<rparr>"

definition TimeVaryingProperty :: "('t \<Rightarrow> 'v option) \<Rightarrow> ('t, 'v) Property" where
  "TimeVaryingProperty f = \<lparr>isConstant = False, getValue = f\<rparr>"

definition empty_StripeGraphics :: "nat StripeGraphics" where
  "empty_StripeGraphics =
     \<lparr>show = None, positions = None, width = None, height = None, heightReference = None,
      extrudedHeight = None, extrudedHeightReference = None, cornerType = None,
      granularity = None, fill = None, material = None, outline = None, outlineColor = None,
      outlineWidth = None, shadows = None, distanceDisplayCondition = None,
      classificationType = None, zIndex = None\<rparr>"

definition scenarioA_stripe :: "nat StripeGraphics" where
  "scenarioA_stripe =
     empty_StripeGraphics
       \<lparr>positions := Some (ConstantProperty [Cartesian3 0 0 0, Cartesian3 1 0 0, Cartesian3 2 0 0]),
        width := Some (ConstantProperty 2),
        height := Some (ConstantProperty 0),
        heightReference := Some (ConstantProperty NONE)\<rparr>"

definition scenarioD_stripe :: "nat StripeGraphics" where
  "scenarioD_stripe =
     scenarioA_stripe\<lparr>height := None, heightReference := None,
                      extrudedHeight := Some (ConstantProperty 30)\<rparr>"

definition clamped_stripe :: "nat StripeGraphics" where
  "clamped_stripe =
     scenarioD_stripe\<lparr>extrudedHeightReference := Some (ConstantProperty CLAMP_TO_GROUND)\<rparr>"

definition unbound_width_stripe :: "nat StripeGraphics" where
  "unbound_width_stripe = clamped_stripe\<lparr>width := None\<rparr>"

definition moving_stripe :: "nat StripeGraphics" where
  "moving_stripe =
     scenarioA_stripe
       \<lparr>height := Some (TimeVaryingProperty (\<lambda>t. if t = 3 then Some 10 else Some 4)),
        extrudedHeight := Some (ConstantProperty 30),
        extrudedHeightReference := Some (ConstantProperty CLAMP_TO_GROUND)\<rparr>"

definition scenario_entity :: "nat StripeGraphics \<Rightarrow> nat Entity" where
  "scenario_entity s = \<lparr>isShowing = True, isAvailable = (\<lambda>time. True), entity_stripe = Some s\<rparr>"

definition scenario_updater :: "nat StripeGraphics \<Rightarrow> bool \<Rightarrow> nat StripeGeometryUpdater" where
  "scenario_updater s fillOn =
     \<lparr>this_entity = scenario_entity s,
      this_options = new_StripeGeometryOptions (scenario_entity s),
      this_fillEnabled = fillOn,
      this_onTerrain = False,
      this_showProperty = Some (ConstantProperty True),
      this_fillProperty = Some (ConstantProperty fillOn),
      this_materialProperty = Some (ColorMaterialProperty True (Some (ConstantProperty Color_WHITE))),
      this_distanceDisplayConditionProperty =
        Some (ConstantProperty (DistanceDisplayCondition 0 1000)),
      this_terrainOffsetProperty = None\<rparr>"

definition scenario_dynamic :: "nat StripeGraphics \<Rightarrow> nat DynamicStripeGeometryUpdater" where
  "scenario_dynamic s = \<lparr>dynamicOptions = new_StripeGeometryOptions (scenario_entity s)\<rparr>"

text \<open>
  One choice of collaborators, enough to run the methods: heights clamp to 0 or to the
  sentinel \<open>''clamp''\<close>, the rectangle is read off the width and the number of positions, and
  the terrain lies between -100 and 9000 everywhere. A geometry needs positions and a width;
  the show attribute takes \<open>true\<close> for an argument that is \<open>undefined\<close>, as a constructor
  with a default does; a display condition must be defined with \<open>near < far\<close>. The
  theorems do not depend on this choice.
\<close>

definition example_collaborators :: "nat Collaborators" where
  "example_collaborators =
     \<lparr>Iso8601_MINIMUM_VALUE = 0,
      computeGeometryOffsetAttribute =
        (\<lambda>h hr e er.
           if h \<noteq> None \<and> hr \<noteq> NONE \<and> e \<noteq> None \<and> er = RELATIVE_TO_GROUND then Some OffsetALL
           else if (h \<noteq> None \<and> hr \<noteq> NONE) \<or> (e \<noteq> None \<and> er = RELATIVE_TO_GROUND)
           then Some OffsetTOP
           else None),
      getGeometryHeight =
        (\<lambda>h hr. case h of
                  None \<Rightarrow> None
                | Some v \<Rightarrow> Some (JSNumber (if hr = CLAMP_TO_GROUND then 0 else v))),
      getGeometryExtrudedHeight =
        (\<lambda>e er. case e of
                  None \<Rightarrow> None
                | Some v \<Rightarrow> Some (if er = CLAMP_TO_GROUND then JSString ''clamp'' else JSNumber v)),
      GroundGeometryUpdater_CLAMP_TO_GROUND = JSString ''clamp'',
      computeRectangle =
        (\<lambda>opts. Rectangle 0 0
                  (case opt_width opts of None \<Rightarrow> 0 | Some w \<Rightarrow> w)
                  (case opt_positions opts of None \<Rightarrow> 0 | Some ps \<Rightarrow> real (length ps))),
      getMinimumMaximumHeights =
        (\<lambda>r. \<lparr>minimumTerrainHeight = - 100, maximumTerrainHeight = 9000\<rparr>),
      new_StripeGeometry =
        (\<lambda>opts. if opt_positions opts = None \<or> opt_width opts = None
                then Inl (DeveloperError ''positions and width are required.'')
                else Inr (StripeGeometry opts)),
      new_ShowGeometryInstanceAttribute =
        (\<lambda>shown. Inr (case shown of None \<Rightarrow> True | Some b \<Rightarrow> b)),
      fromDistanceDisplayCondition =
        (\<lambda>condition. case condition of
                  None \<Rightarrow> Inl (DeveloperError ''distanceDisplayCondition is required.'')
                | Some (DistanceDisplayCondition near far) \<Rightarrow>
                    if far \<le> near
                    then Inl (DeveloperError ''far must be greater than near.'')
                    else Inr (DistanceDisplayCondition near far)),
      fromColor = Inr,
      fromCartesian3 = Inr\<rparr>"

text \<open>
  A choice in which the rectangle depends on the vertex format, which only the static pass
  writes, and the terrain height on the rectangle.
\<close>

definition format_reading_collaborators :: "nat Collaborators" where
  "format_reading_collaborators =
     example_collaborators
       \<lparr>computeRectangle :=
          (\<lambda>opts. Rectangle 0 0 0 (if opt_vertexFormat opts = None then 0 else 1)),
        getMinimumMaximumHeights :=
          (\<lambda>r. case r of
                  Rectangle west south east north \<Rightarrow>
                    \<lparr>minimumTerrainHeight = north, maximumTerrainHeight = north\<rparr>)\<rparr>"



lemmas example_defs =
  ConstantProperty_def TimeVaryingProperty_def empty_StripeGraphics_def scenarioA_stripe_def
  scenarioD_stripe_def clamped_stripe_def unbound_width_stripe_def moving_stripe_def
  scenario_entity_def scenario_updater_def scenario_dynamic_def example_collaborators_def
  format_reading_collaborators_def new_StripeGeometryOptions_def

section \<open>Visibility\<close>

text \<open>
  C5. The static updater's \<open>isHidden\<close> is true as soon as positions or width is undefined,
  whatever the show and fill properties of the descriptor are; when both are defined it is
  the answer of the base predicate.
\<close>

theorem isHidden_without_positions_or_width:
  "(positions stripe = None \<or> width stripe = None \<longrightarrow>
      isHidden GeometryUpdater_isHidden this entity stripe
      \<and> (\<forall>s f. isHidden GeometryUpdater_isHidden this entity (stripe\<lparr>show := s, fill := f\<rparr>)))
   \<and> (positions stripe \<noteq> None \<and> width stripe \<noteq> None \<longrightarrow>
      isHidden GeometryUpdater_isHidden this entity stripe
        = GeometryUpdater_isHidden this entity stripe)"
  by (auto simp: isHidden_def defined_def)

theorem isHidden_without_positions_or_width_witness:
  "isHidden (\<lambda>this entity stripe. False) (scenario_updater empty_StripeGraphics True)
     (scenario_entity empty_StripeGraphics) empty_StripeGraphics
   \<and> \<not> isHidden (\<lambda>this entity stripe. False) (scenario_updater scenarioA_stripe True)
     (scenario_entity scenarioA_stripe) scenarioA_stripe"
  using isHidden_without_positions_or_width
          [of empty_StripeGraphics "\<lambda>this entity stripe. False"
              "scenario_updater empty_StripeGraphics True" "scenario_entity empty_StripeGraphics"]
        isHidden_without_positions_or_width
          [of scenarioA_stripe "\<lambda>this entity stripe. False"
              "scenario_updater scenarioA_stripe True" "scenario_entity scenarioA_stripe"]
  by (simp add: example_defs)

section \<open>Geometry instances\<close>

text \<open>
  C6. With fill disabled, \<open>createFillGeometryInstance\<close> throws the \<open>DeveloperError\<close> of the
  precondition at every time, whatever else the updater holds, and the updater, its options
  included, is as it was before the call.
\<close>

theorem createFillGeometryInstance_requires_fill:
  assumes "\<not> this_fillEnabled this"
  shows "fst (createFillGeometryInstance env this time) =
           Inl (DeveloperError ''This instance does not represent a filled geometry.'')
       \<and> snd (createFillGeometryInstance env this time) = this
       \<and> this_options (snd (createFillGeometryInstance env this time)) = this_options this"
  using assms by (simp add: createFillGeometryInstance_def)

theorem createFillGeometryInstance_requires_fill_witness:
  "\<not> this_fillEnabled (scenario_updater scenarioA_stripe False)
   \<and> createFillGeometryInstance example_collaborators (scenario_updater scenarioA_stripe False) 5 =
       (Inl (DeveloperError ''This instance does not represent a filled geometry.''),
        scenario_updater scenarioA_stripe False)"
  using createFillGeometryInstance_requires_fill
          [of "scenario_updater scenarioA_stripe False" example_collaborators 5]
  by (simp add: example_defs prod_eq_iff)









text \<open>
  C8. \<open>createOutlineGeometryInstance\<close> throws the error of the unsupported outline for every
  updater and every time: it returns no instance, the outcome is the same whatever the
  updater holds, and the updater is untouched.
\<close>

theorem createOutlineGeometryInstance_unsupported:
  "fst (createOutlineGeometryInstance this time) = Inl (Error ''outline is an unsupported function'')
   \<and> (\<nexists>inst. fst (createOutlineGeometryInstance this time) = Inr inst)
   \<and> snd (createOutlineGeometryInstance this time) = this
   \<and> fst (createOutlineGeometryInstance this' time') = fst (createOutlineGeometryInstance this time)"
  by (simp add: createOutlineGeometryInstance_def)

theorem createOutlineGeometryInstance_unsupported_witness:
  "createOutlineGeometryInstance (scenario_updater scenarioA_stripe True) 5 =
     (Inl (Error ''outline is an unsupported function''), scenario_updater scenarioA_stripe True)"
  using createOutlineGeometryInstance_unsupported
          [of "scenario_updater scenarioA_stripe True" 5 "scenario_updater scenarioA_stripe True" 5]
  by (simp add: prod_eq_iff)

section \<open>The centre\<close>

lemma floor_half_length: "nat \<lfloor>real n / 2.0\<rfloor> = n div 2"
proof -
  have "real n / 2 = of_nat n / of_nat 2"
    by simp
  then have "\<lfloor>real n / 2\<rfloor> = int (n div 2)"
    by (simp only: floor_divide_of_nat_eq)
  then show ?thesis
    by simp
qed

lemma Cartesian3_clone_Some: "Cartesian3_clone (Some c) = Some c"
  by (cases c) simp

text \<open>
  C9. \<open>_computeCenter\<close> returns nothing when the positions sampled at the time are undefined
  or empty; otherwise it returns the element at index \<open>length div 2\<close> of the sampled
  positions, which is one of the sampled points.
\<close>

theorem computeCenter_middle_vertex:
  assumes "entity_stripe (this_entity this) = Some s"
  shows "(Property_getValueOrUndefined (positions s) time = None \<longrightarrow>
            computeCenter this time = Inr None)
       \<and> (Property_getValueOrUndefined (positions s) time = Some [] \<longrightarrow>
            computeCenter this time = Inr None)
       \<and> (\<forall>ps. Property_getValueOrUndefined (positions s) time = Some ps \<and> ps \<noteq> [] \<longrightarrow>
            computeCenter this time = Inr (Some (ps ! (length ps div 2)))
            \<and> length ps div 2 < length ps
            \<and> ps ! (length ps div 2) \<in> set ps)"
  using assms unfolding computeCenter_def floor_half_length
  by (auto simp: Cartesian3_clone_Some)

theorem computeCenter_middle_vertex_witness:
  "computeCenter (scenario_updater scenarioA_stripe True) 5 = Inr (Some (Cartesian3 1 0 0))
   \<and> computeCenter (scenario_updater empty_StripeGraphics True) 5 = Inr None"
  using computeCenter_middle_vertex
          [of "scenario_updater scenarioA_stripe True" scenarioA_stripe 5]
        computeCenter_middle_vertex
          [of "scenario_updater empty_StripeGraphics True" empty_StripeGraphics 5]
  by (simp add: example_defs Property_getValueOrUndefined_def)

section \<open>Static or dynamic\<close>

text \<open>
  C1. For a descriptor with positions defined, \<open>_isDynamic\<close> returns, and what it returns is
  true exactly when one of positions, height, extrudedHeight, granularity, width,
  outlineWidth, cornerType, zIndex is non-constant, or the shape is on terrain and its
  material is non-constant and not a colour material.
\<close>

theorem isDynamic_iff_some_property_varies:
  assumes "defined (positions stripe)"
  shows "isDynamic this entity stripe = Inr (spec_isDynamic this stripe)"
  using assms
  by (auto simp: isDynamic_def spec_isDynamic_def defined_def Property_isConstant_def)

theorem isDynamic_iff_some_property_varies_witness:
  "isDynamic (scenario_updater scenarioA_stripe True) (scenario_entity scenarioA_stripe)
     scenarioA_stripe = Inr False
   \<and> isDynamic (scenario_updater moving_stripe True) (scenario_entity moving_stripe)
     moving_stripe = Inr True"
  using isDynamic_iff_some_property_varies
          [of scenarioA_stripe "scenario_updater scenarioA_stripe True"
              "scenario_entity scenarioA_stripe"]
        isDynamic_iff_some_property_varies
          [of moving_stripe "scenario_updater moving_stripe True" "scenario_entity moving_stripe"]
  by (simp add: example_defs spec_isDynamic_def defined_def Property_isConstant_def)

section \<open>The two resolution passes\<close>

lemma setOptions_thrown: "thrown (setOptions env this entity stripe time) = None"
  by (simp add: setOptions_def Let_def)

lemma setStaticOptions_thrown:
  "thrown (setStaticOptions env this entity stripe) =
     (if positions stripe = None \<or> width stripe = None then Some TypeError else None)"
  by (simp add: setStaticOptions_def Let_def split: option.split)

lemma setOptions_shape:
  "opt_positions (options_after (setOptions env dyn entity stripe time)) =
     Property_getValueOrUndefined (positions stripe) time"
  "opt_width (options_after (setOptions env dyn entity stripe time)) =
     Property_getValueOrUndefined (width stripe) time"
  "opt_granularity (options_after (setOptions env dyn entity stripe time)) =
     Property_getValueOrUndefined (granularity stripe) time"
  "opt_cornerType (options_after (setOptions env dyn entity stripe time)) =
     Property_getValueOrUndefined (cornerType stripe) time"
  by (simp_all add: setOptions_def Let_def)

lemma setOptions_height:
  "opt_height (options_after (setOptions env dyn entity stripe time)) =
     getGeometryHeight env
       (if defined (Property_getValueOrUndefined (extrudedHeight stripe) time) \<and>
           \<not> defined (Property_getValueOrUndefined (height stripe) time)
        then Some 0 else Property_getValueOrUndefined (height stripe) time)
       (Property_getValueOrDefault (heightReference stripe) time NONE)"
  by (simp add: setOptions_def Let_def)

lemma setOptions_offsetAttribute:
  "opt_offsetAttribute (options_after (setOptions env dyn entity stripe time)) =
     computeGeometryOffsetAttribute env
       (if defined (Property_getValueOrUndefined (extrudedHeight stripe) time) \<and>
           \<not> defined (Property_getValueOrUndefined (height stripe) time)
        then Some 0 else Property_getValueOrUndefined (height stripe) time)
       (Property_getValueOrDefault (heightReference stripe) time NONE)
       (Property_getValueOrUndefined (extrudedHeight stripe) time)
       (Property_getValueOrDefault (extrudedHeightReference stripe) time NONE)"
  by (simp add: setOptions_def Let_def)

lemma setOptions_extrudedHeight:
  "opt_extrudedHeight (options_after (setOptions env dyn entity stripe time)) =
     (if getGeometryExtrudedHeight env
           (Property_getValueOrUndefined (extrudedHeight stripe) time)
           (Property_getValueOrDefault (extrudedHeightReference stripe) time NONE)
         = Some (GroundGeometryUpdater_CLAMP_TO_GROUND env)
      then Some (JSNumber (minimumTerrainHeight (getMinimumMaximumHeights env
             (computeRectangle env
                ((options_after (setOptions env dyn entity stripe time))
                   \<lparr>opt_extrudedHeight := opt_extrudedHeight (dynamicOptions dyn)\<rparr>)))))
      else getGeometryExtrudedHeight env
             (Property_getValueOrUndefined (extrudedHeight stripe) time)
             (Property_getValueOrDefault (extrudedHeightReference stripe) time NONE))"
  by (simp add: setOptions_def Let_def)

lemma setStaticOptions_shape:
  assumes "positions stripe = Some pp" and "width stripe = Some wp"
  shows "opt_positions (options_after (setStaticOptions env this entity stripe)) =
     Property_getValueOrUndefined (positions stripe) (Iso8601_MINIMUM_VALUE env)"
  "opt_width (options_after (setStaticOptions env this entity stripe)) =
     Property_getValueOrUndefined (width stripe) (Iso8601_MINIMUM_VALUE env)"
  "opt_granularity (options_after (setStaticOptions env this entity stripe)) =
     Property_getValueOrUndefined (granularity stripe) (Iso8601_MINIMUM_VALUE env)"
  "opt_cornerType (options_after (setStaticOptions env this entity stripe)) =
     Property_getValueOrUndefined (cornerType stripe) (Iso8601_MINIMUM_VALUE env)"
  using assms by (simp_all add: setStaticOptions_def Let_def Property_getValueOrUndefined_def)

lemma setStaticOptions_height:
  assumes "positions stripe = Some pp" and "width stripe = Some wp"
  shows "opt_height (options_after (setStaticOptions env this entity stripe)) =
     getGeometryHeight env
       (if defined (Property_getValueOrUndefined (extrudedHeight stripe) (Iso8601_MINIMUM_VALUE env)) \<and>
           \<not> defined (Property_getValueOrUndefined (height stripe) (Iso8601_MINIMUM_VALUE env))
        then Some 0 else Property_getValueOrUndefined (height stripe) (Iso8601_MINIMUM_VALUE env))
       (Property_getValueOrDefault (heightReference stripe) (Iso8601_MINIMUM_VALUE env) NONE)"
  using assms by (simp add: setStaticOptions_def Let_def)

lemma setStaticOptions_offsetAttribute:
  assumes "positions stripe = Some pp" and "width stripe = Some wp"
  shows "opt_offsetAttribute (options_after (setStaticOptions env this entity stripe)) =
     computeGeometryOffsetAttribute env
       (if defined (Property_getValueOrUndefined (extrudedHeight stripe) (Iso8601_MINIMUM_VALUE env)) \<and>
           \<not> defined (Property_getValueOrUndefined (height stripe) (Iso8601_MINIMUM_VALUE env))
        then Some 0 else Property_getValueOrUndefined (height stripe) (Iso8601_MINIMUM_VALUE env))
       (Property_getValueOrDefault (heightReference stripe) (Iso8601_MINIMUM_VALUE env) NONE)
       (Property_getValueOrUndefined (extrudedHeight stripe) (Iso8601_MINIMUM_VALUE env))
       (Property_getValueOrDefault (extrudedHeightReference stripe) (Iso8601_MINIMUM_VALUE env) NONE)"
  using assms by (simp add: setStaticOptions_def Let_def)

lemma setStaticOptions_extrudedHeight:
  assumes "positions stripe = Some pp" and "width stripe = Some wp"
  shows "opt_extrudedHeight (options_after (setStaticOptions env this entity stripe)) =
     (if getGeometryExtrudedHeight env
           (Property_getValueOrUndefined (extrudedHeight stripe) (Iso8601_MINIMUM_VALUE env))
           (Property_getValueOrDefault (extrudedHeightReference stripe) (Iso8601_MINIMUM_VALUE env) NONE)
         = Some (GroundGeometryUpdater_CLAMP_TO_GROUND env)
      then Some (JSNumber (minimumTerrainHeight (getMinimumMaximumHeights env
             (computeRectangle env
                ((options_after (setStaticOptions env this entity stripe))
                   \<lparr>opt_extrudedHeight := opt_extrudedHeight (this_options this)\<rparr>)))))
      else getGeometryExtrudedHeight env
             (Property_getValueOrUndefined (extrudedHeight stripe) (Iso8601_MINIMUM_VALUE env))
             (Property_getValueOrDefault (extrudedHeightReference stripe) (Iso8601_MINIMUM_VALUE env) NONE))"
  using assms by (simp add: setStaticOptions_def Let_def)

lemma sampledFields_eqD:
  assumes "sampledFields a ta = sampledFields b tb"
  shows "Property_getValueOrUndefined (height a) ta = Property_getValueOrUndefined (height b) tb"
    and "Property_getValueOrDefault (heightReference a) ta NONE =
         Property_getValueOrDefault (heightReference b) tb NONE"
    and "Property_getValueOrUndefined (extrudedHeight a) ta =
         Property_getValueOrUndefined (extrudedHeight b) tb"
    and "Property_getValueOrDefault (extrudedHeightReference a) ta NONE =
         Property_getValueOrDefault (extrudedHeightReference b) tb NONE"
    and "Property_getValueOrUndefined (positions a) ta = Property_getValueOrUndefined (positions b) tb"
    and "Property_getValueOrUndefined (width a) ta = Property_getValueOrUndefined (width b) tb"
    and "Property_getValueOrUndefined (granularity a) ta =
         Property_getValueOrUndefined (granularity b) tb"
    and "Property_getValueOrUndefined (cornerType a) ta =
         Property_getValueOrUndefined (cornerType b) tb"
  using assms by (simp_all add: sampledFields_def)

lemma setStaticOptions_frame:
  assumes "positions stripe = Some pp" and "width stripe = Some wp"
  shows "opt_id (options_after (setStaticOptions env this entity stripe)) =
           opt_id (this_options this)"
    and "opt_vertexFormat (options_after (setStaticOptions env this entity stripe)) =
           Some (if instanceofColorMaterialProperty (this_materialProperty this)
                 then PerInstanceColorAppearance_VERTEX_FORMAT
                 else MaterialSupport_TEXTURED_vertexFormat)"
  using assms by (simp_all add: setStaticOptions_def Let_def)

lemma setStaticOptions_is_setOptions:
  assumes "positions stripe = Some pp" and "width stripe = Some wp"
  shows "setStaticOptions env this entity stripe =
           setOptions env
             \<lparr>dynamicOptions = (this_options this)\<lparr>opt_vertexFormat :=
                Some (if instanceofColorMaterialProperty (this_materialProperty this)
                      then PerInstanceColorAppearance_VERTEX_FORMAT
                      else MaterialSupport_TEXTURED_vertexFormat)\<rparr>\<rparr>
             entity stripe (Iso8601_MINIMUM_VALUE env)"
  using assms
  by (simp add: setStaticOptions_def setOptions_def Let_def Property_getValueOrUndefined_def)

lemma setOptions_samples_only:
  assumes s: "sampledFields stripe a = sampledFields stripe b"
  shows "setOptions env dyn entity stripe a = setOptions env dyn entity stripe b"
  unfolding setOptions_def
  by (simp only: sampledFields_eqD [OF s])

lemma static_dynamic_agree:
  assumes s: "sampledFields stripe (Iso8601_MINIMUM_VALUE env) = sampledFields stripe time"
    and p: "positions stripe = Some pp" and w: "width stripe = Some wp"
  shows "opt_height (options_after (setOptions env dyn entity stripe time)) =
           opt_height (options_after (setStaticOptions env this entity stripe))"
    and "opt_offsetAttribute (options_after (setOptions env dyn entity stripe time)) =
           opt_offsetAttribute (options_after (setStaticOptions env this entity stripe))"
    and "getGeometryExtrudedHeight env
           (Property_getValueOrUndefined (extrudedHeight stripe) (Iso8601_MINIMUM_VALUE env))
           (Property_getValueOrDefault (extrudedHeightReference stripe)
              (Iso8601_MINIMUM_VALUE env) NONE)
           \<noteq> Some (GroundGeometryUpdater_CLAMP_TO_GROUND env) \<or>
         rectangle_reads_resolved_shape env \<Longrightarrow>
         opt_extrudedHeight (options_after (setOptions env dyn entity stripe time)) =
           opt_extrudedHeight (options_after (setStaticOptions env this entity stripe))"
proof -
  note e = sampledFields_eqD [OF s]
  show h: "opt_height (options_after (setOptions env dyn entity stripe time)) =
           opt_height (options_after (setStaticOptions env this entity stripe))"
    by (simp only: setOptions_height setStaticOptions_height [OF p w] e)
  show o: "opt_offsetAttribute (options_after (setOptions env dyn entity stripe time)) =
           opt_offsetAttribute (options_after (setStaticOptions env this entity stripe))"
    by (simp only: setOptions_offsetAttribute setStaticOptions_offsetAttribute [OF p w] e)
  let ?A = "(options_after (setOptions env dyn entity stripe time))
              \<lparr>opt_extrudedHeight := opt_extrudedHeight (dynamicOptions dyn)\<rparr>"
  let ?B = "(options_after (setStaticOptions env this entity stripe))
              \<lparr>opt_extrudedHeight := opt_extrudedHeight (this_options this)\<rparr>"
  let ?resolved = "getGeometryExtrudedHeight env
           (Property_getValueOrUndefined (extrudedHeight stripe) time)
           (Property_getValueOrDefault (extrudedHeightReference stripe) time NONE)"
  assume c: "getGeometryExtrudedHeight env
           (Property_getValueOrUndefined (extrudedHeight stripe) (Iso8601_MINIMUM_VALUE env))
           (Property_getValueOrDefault (extrudedHeightReference stripe)
              (Iso8601_MINIMUM_VALUE env) NONE)
           \<noteq> Some (GroundGeometryUpdater_CLAMP_TO_GROUND env) \<or>
         rectangle_reads_resolved_shape env"
  show "opt_extrudedHeight (options_after (setOptions env dyn entity stripe time)) =
           opt_extrudedHeight (options_after (setStaticOptions env this entity stripe))"
  proof (cases "?resolved = Some (GroundGeometryUpdater_CLAMP_TO_GROUND env)")
    case False
    then show ?thesis
      by (simp only: setOptions_extrudedHeight setStaticOptions_extrudedHeight [OF p w] e if_False)
  next
    case True
    with c have r: "rectangle_reads_resolved_shape env"
      by (simp only: e) simp
    have "opt_positions ?A = opt_positions ?B" "opt_width ?A = opt_width ?B"
         "opt_granularity ?A = opt_granularity ?B" "opt_cornerType ?A = opt_cornerType ?B"
      by (simp_all add: setOptions_shape setStaticOptions_shape [OF p w] e)
    moreover have "opt_offsetAttribute ?A = opt_offsetAttribute ?B" "opt_height ?A = opt_height ?B"
      using h o by simp_all
    ultimately have "computeRectangle env ?A = computeRectangle env ?B"
      using r unfolding rectangle_reads_resolved_shape_def by blast
    then show ?thesis
      by (simp only: setOptions_extrudedHeight setStaticOptions_extrudedHeight [OF p w] e)
  qed
qed

text \<open>
  C2. In either pass, when the extruded height sampled at the pass's instant is defined and
  the sampled height is not, the offset attribute and the resolved height are the
  collaborators' answers for the height 0. The static pass gets there unless it has thrown
  on a missing positions or width property; the dynamic pass always does.
\<close>

theorem extruded_without_height_starts_at_zero:
  "(defined (Property_getValueOrUndefined (extrudedHeight stripe) (Iso8601_MINIMUM_VALUE env)) \<and>
    \<not> defined (Property_getValueOrUndefined (height stripe) (Iso8601_MINIMUM_VALUE env)) \<longrightarrow>
      (case thrown (setStaticOptions env this entity stripe) of
         Some e \<Rightarrow> e = TypeError \<and> (positions stripe = None \<or> width stripe = None)
       | None \<Rightarrow>
           positions stripe \<noteq> None \<and> width stripe \<noteq> None \<and>
           opt_offsetAttribute (options_after (setStaticOptions env this entity stripe)) =
             computeGeometryOffsetAttribute env (Some 0)
               (Property_getValueOrDefault (heightReference stripe) (Iso8601_MINIMUM_VALUE env) NONE)
               (Property_getValueOrUndefined (extrudedHeight stripe) (Iso8601_MINIMUM_VALUE env))
               (Property_getValueOrDefault (extrudedHeightReference stripe)
                  (Iso8601_MINIMUM_VALUE env) NONE) \<and>
           opt_height (options_after (setStaticOptions env this entity stripe)) =
             getGeometryHeight env (Some 0)
               (Property_getValueOrDefault (heightReference stripe) (Iso8601_MINIMUM_VALUE env) NONE)))
   \<and> (defined (Property_getValueOrUndefined (extrudedHeight stripe) time) \<and>
      \<not> defined (Property_getValueOrUndefined (height stripe) time) \<longrightarrow>
        thrown (setOptions env dyn entity stripe time) = None \<and>
        opt_offsetAttribute (options_after (setOptions env dyn entity stripe time)) =
          computeGeometryOffsetAttribute env (Some 0)
            (Property_getValueOrDefault (heightReference stripe) time NONE)
            (Property_getValueOrUndefined (extrudedHeight stripe) time)
            (Property_getValueOrDefault (extrudedHeightReference stripe) time NONE) \<and>
        opt_height (options_after (setOptions env dyn entity stripe time)) =
          getGeometryHeight env (Some 0)
            (Property_getValueOrDefault (heightReference stripe) time NONE))"
proof (intro conjI impI)
  assume h: "defined (Property_getValueOrUndefined (extrudedHeight stripe) (Iso8601_MINIMUM_VALUE env)) \<and>
    \<not> defined (Property_getValueOrUndefined (height stripe) (Iso8601_MINIMUM_VALUE env))"
  show "case thrown (setStaticOptions env this entity stripe) of
         Some e \<Rightarrow> e = TypeError \<and> (positions stripe = None \<or> width stripe = None)
       | None \<Rightarrow>
           positions stripe \<noteq> None \<and> width stripe \<noteq> None \<and>
           opt_offsetAttribute (options_after (setStaticOptions env this entity stripe)) =
             computeGeometryOffsetAttribute env (Some 0)
               (Property_getValueOrDefault (heightReference stripe) (Iso8601_MINIMUM_VALUE env) NONE)
               (Property_getValueOrUndefined (extrudedHeight stripe) (Iso8601_MINIMUM_VALUE env))
               (Property_getValueOrDefault (extrudedHeightReference stripe)
                  (Iso8601_MINIMUM_VALUE env) NONE) \<and>
           opt_height (options_after (setStaticOptions env this entity stripe)) =
             getGeometryHeight env (Some 0)
               (Property_getValueOrDefault (heightReference stripe) (Iso8601_MINIMUM_VALUE env) NONE)"
  proof (cases "positions stripe = None \<or> width stripe = None")
    case True
    then show ?thesis
      by (auto simp add: setStaticOptions_thrown)
  next
    case False
    then obtain pp wp where p: "positions stripe = Some pp" and w: "width stripe = Some wp"
      by auto
    show ?thesis
      using h p w
      by (simp add: setStaticOptions_thrown setStaticOptions_height [OF p w]
            setStaticOptions_offsetAttribute [OF p w])
  qed
next
  assume h: "defined (Property_getValueOrUndefined (extrudedHeight stripe) time) \<and>
      \<not> defined (Property_getValueOrUndefined (height stripe) time)"
  show "thrown (setOptions env dyn entity stripe time) = None"
    by (rule setOptions_thrown)
  show "opt_offsetAttribute (options_after (setOptions env dyn entity stripe time)) =
          computeGeometryOffsetAttribute env (Some 0)
            (Property_getValueOrDefault (heightReference stripe) time NONE)
            (Property_getValueOrUndefined (extrudedHeight stripe) time)
            (Property_getValueOrDefault (extrudedHeightReference stripe) time NONE)"
    using h by (simp add: setOptions_offsetAttribute)
  show "opt_height (options_after (setOptions env dyn entity stripe time)) =
          getGeometryHeight env (Some 0)
            (Property_getValueOrDefault (heightReference stripe) time NONE)"
    using h by (simp add: setOptions_height)
qed

theorem extruded_without_height_starts_at_zero_witness:
  "thrown (setStaticOptions example_collaborators (scenario_updater scenarioD_stripe True)
             (scenario_entity scenarioD_stripe) scenarioD_stripe) = None
   \<and> opt_height (options_after
        (setStaticOptions example_collaborators (scenario_updater scenarioD_stripe True)
           (scenario_entity scenarioD_stripe) scenarioD_stripe)) = Some (JSNumber 0)
   \<and> opt_height (options_after
        (setOptions example_collaborators (scenario_dynamic scenarioD_stripe)
           (scenario_entity scenarioD_stripe) scenarioD_stripe 5)) = Some (JSNumber 0)"
  using extruded_without_height_starts_at_zero
          [where stripe = scenarioD_stripe and env = example_collaborators
             and this = "scenario_updater scenarioD_stripe True"
             and entity = "scenario_entity scenarioD_stripe" and time = 5
             and dyn = "scenario_dynamic scenarioD_stripe"]
  by (simp add: example_defs setStaticOptions_thrown defined_def
        Property_getValueOrUndefined_def Property_getValueOrDefault_def)

text \<open>
  C3. In either pass, when the reference-resolved extruded height is the clamp-to-ground
  sentinel, the pass asks the terrain approximation once, for the rectangle of its own
  options as resolved so far (they carry the sampled positions and width), and stores the
  minimum terrain height it gets; otherwise it asks nothing and stores the resolved value.
  The static pass gets there unless it has thrown on a missing positions or width property.
\<close>

theorem clamped_extrusion_takes_minimum_terrain_height:
  "(let S = setStaticOptions env this entity stripe;
        resolved = getGeometryExtrudedHeight env
          (Property_getValueOrUndefined (extrudedHeight stripe) (Iso8601_MINIMUM_VALUE env))
          (Property_getValueOrDefault (extrudedHeightReference stripe)
             (Iso8601_MINIMUM_VALUE env) NONE);
        shape = (options_after S)\<lparr>opt_extrudedHeight := opt_extrudedHeight (this_options this)\<rparr>
    in case thrown S of
         Some e \<Rightarrow> e = TypeError \<and> (positions stripe = None \<or> width stripe = None)
       | None \<Rightarrow>
           if resolved = Some (GroundGeometryUpdater_CLAMP_TO_GROUND env)
           then terrainQueries S = [computeRectangle env shape] \<and>
                opt_extrudedHeight (options_after S) =
                  Some (JSNumber (minimumTerrainHeight
                    (getMinimumMaximumHeights env (computeRectangle env shape)))) \<and>
                opt_positions shape =
                  Property_getValueOrUndefined (positions stripe) (Iso8601_MINIMUM_VALUE env) \<and>
                opt_width shape =
                  Property_getValueOrUndefined (width stripe) (Iso8601_MINIMUM_VALUE env)
           else terrainQueries S = [] \<and> opt_extrudedHeight (options_after S) = resolved)
   \<and> (let D = setOptions env dyn entity stripe time;
          resolved = getGeometryExtrudedHeight env
            (Property_getValueOrUndefined (extrudedHeight stripe) time)
            (Property_getValueOrDefault (extrudedHeightReference stripe) time NONE);
          shape = (options_after D)\<lparr>opt_extrudedHeight := opt_extrudedHeight (dynamicOptions dyn)\<rparr>
      in thrown D = None \<and>
         (if resolved = Some (GroundGeometryUpdater_CLAMP_TO_GROUND env)
          then terrainQueries D = [computeRectangle env shape] \<and>
               opt_extrudedHeight (options_after D) =
                 Some (JSNumber (minimumTerrainHeight
                   (getMinimumMaximumHeights env (computeRectangle env shape)))) \<and>
               opt_positions shape = Property_getValueOrUndefined (positions stripe) time \<and>
               opt_width shape = Property_getValueOrUndefined (width stripe) time
          else terrainQueries D = [] \<and> opt_extrudedHeight (options_after D) = resolved))"
proof (rule conjI)
  show "let S = setStaticOptions env this entity stripe;
        resolved = getGeometryExtrudedHeight env
          (Property_getValueOrUndefined (extrudedHeight stripe) (Iso8601_MINIMUM_VALUE env))
          (Property_getValueOrDefault (extrudedHeightReference stripe)
             (Iso8601_MINIMUM_VALUE env) NONE);
        shape = (options_after S)\<lparr>opt_extrudedHeight := opt_extrudedHeight (this_options this)\<rparr>
    in case thrown S of
         Some e \<Rightarrow> e = TypeError \<and> (positions stripe = None \<or> width stripe = None)
       | None \<Rightarrow>
           if resolved = Some (GroundGeometryUpdater_CLAMP_TO_GROUND env)
           then terrainQueries S = [computeRectangle env shape] \<and>
                opt_extrudedHeight (options_after S) =
                  Some (JSNumber (minimumTerrainHeight
                    (getMinimumMaximumHeights env (computeRectangle env shape)))) \<and>
                opt_positions shape =
                  Property_getValueOrUndefined (positions stripe) (Iso8601_MINIMUM_VALUE env) \<and>
                opt_width shape =
                  Property_getValueOrUndefined (width stripe) (Iso8601_MINIMUM_VALUE env)
           else terrainQueries S = [] \<and> opt_extrudedHeight (options_after S) = resolved"
    by (cases "positions stripe"; cases "width stripe")
       (simp_all add: setStaticOptions_def Let_def Property_getValueOrUndefined_def)
next
  show "let D = setOptions env dyn entity stripe time;
          resolved = getGeometryExtrudedHeight env
            (Property_getValueOrUndefined (extrudedHeight stripe) time)
            (Property_getValueOrDefault (extrudedHeightReference stripe) time NONE);
          shape = (options_after D)\<lparr>opt_extrudedHeight := opt_extrudedHeight (dynamicOptions dyn)\<rparr>
      in thrown D = None \<and>
         (if resolved = Some (GroundGeometryUpdater_CLAMP_TO_GROUND env)
          then terrainQueries D = [computeRectangle env shape] \<and>
               opt_extrudedHeight (options_after D) =
                 Some (JSNumber (minimumTerrainHeight
                   (getMinimumMaximumHeights env (computeRectangle env shape)))) \<and>
               opt_positions shape = Property_getValueOrUndefined (positions stripe) time \<and>
               opt_width shape = Property_getValueOrUndefined (width stripe) time
          else terrainQueries D = [] \<and> opt_extrudedHeight (options_after D) = resolved)"
    by (simp add: setOptions_def Let_def)
qed

theorem clamped_extrusion_takes_minimum_terrain_height_witness:
  "opt_extrudedHeight (options_after
     (setStaticOptions example_collaborators (scenario_updater clamped_stripe True)
        (scenario_entity clamped_stripe) clamped_stripe)) = Some (JSNumber (- 100))
   \<and> terrainQueries
        (setStaticOptions example_collaborators (scenario_updater clamped_stripe True)
           (scenario_entity clamped_stripe) clamped_stripe) = [Rectangle 0 0 2 3]
   \<and> opt_extrudedHeight (options_after
        (setOptions example_collaborators (scenario_dynamic scenarioD_stripe)
           (scenario_entity scenarioD_stripe) scenarioD_stripe 5)) = Some (JSNumber 30)
   \<and> terrainQueries
        (setOptions example_collaborators (scenario_dynamic scenarioD_stripe)
           (scenario_entity scenarioD_stripe) scenarioD_stripe 5) = []"
proof -
  have s: "thrown (setStaticOptions example_collaborators (scenario_updater clamped_stripe True)
             (scenario_entity clamped_stripe) clamped_stripe) = None"
    by (simp add: setStaticOptions_thrown example_defs)
  have shape:
    "opt_width (options_after
        (setStaticOptions example_collaborators (scenario_updater clamped_stripe True)
           (scenario_entity clamped_stripe) clamped_stripe)) = Some 2"
    "opt_positions (options_after
        (setStaticOptions example_collaborators (scenario_updater clamped_stripe True)
           (scenario_entity clamped_stripe) clamped_stripe))
       = Some [Cartesian3 0 0 0, Cartesian3 1 0 0, Cartesian3 2 0 0]"
    by (simp_all add: setStaticOptions_def Let_def example_defs)
  show ?thesis
    using clamped_extrusion_takes_minimum_terrain_height
          [where env = example_collaborators and this = "scenario_updater clamped_stripe True"
             and entity = "scenario_entity clamped_stripe" and stripe = clamped_stripe
             and dyn = "scenario_dynamic clamped_stripe" and time = 5]
        clamped_extrusion_takes_minimum_terrain_height
          [where env = example_collaborators and this = "scenario_updater scenarioD_stripe True"
             and entity = "scenario_entity scenarioD_stripe" and stripe = scenarioD_stripe
             and dyn = "scenario_dynamic scenarioD_stripe" and time = 5]
    by (simp add: Let_def s shape) (simp add: example_defs Property_getValueOrUndefined_def
        Property_getValueOrDefault_def)
qed

lemma static_pass_bound:
  assumes p: "positions stripe = Some pp" and w: "width stripe = Some wp"
  shows
    "(let S = setStaticOptions env this entity stripe;
          epoch = Iso8601_MINIMUM_VALUE env;
          format = Some (if instanceofColorMaterialProperty (this_materialProperty this)
                         then PerInstanceColorAppearance_VERTEX_FORMAT
                         else MaterialSupport_TEXTURED_vertexFormat);
          start = \<lparr>dynamicOptions = (this_options this)\<lparr>opt_vertexFormat := format\<rparr>\<rparr>;
          heightValue =
            (if defined (Property_getValueOrUndefined (extrudedHeight stripe) epoch) \<and>
                \<not> defined (Property_getValueOrUndefined (height stripe) epoch)
             then Some 0 else Property_getValueOrUndefined (height stripe) epoch);
          resolved = getGeometryExtrudedHeight env
            (Property_getValueOrUndefined (extrudedHeight stripe) epoch)
            (Property_getValueOrDefault (extrudedHeightReference stripe) epoch NONE)
      in thrown S = None
       \<and> opt_id (options_after S) = opt_id (this_options this)
       \<and> opt_vertexFormat (options_after S) = format
       \<and> opt_positions (options_after S) = Property_getValueOrUndefined (positions stripe) epoch
       \<and> opt_width (options_after S) = Property_getValueOrUndefined (width stripe) epoch
       \<and> opt_granularity (options_after S) = Property_getValueOrUndefined (granularity stripe) epoch
       \<and> opt_cornerType (options_after S) = Property_getValueOrUndefined (cornerType stripe) epoch
       \<and> opt_offsetAttribute (options_after S) =
           computeGeometryOffsetAttribute env heightValue
             (Property_getValueOrDefault (heightReference stripe) epoch NONE)
             (Property_getValueOrUndefined (extrudedHeight stripe) epoch)
             (Property_getValueOrDefault (extrudedHeightReference stripe) epoch NONE)
       \<and> opt_height (options_after S) =
           getGeometryHeight env heightValue
             (Property_getValueOrDefault (heightReference stripe) epoch NONE)
       \<and> opt_extrudedHeight (options_after S) =
           (if resolved = Some (GroundGeometryUpdater_CLAMP_TO_GROUND env)
            then Some (JSNumber (minimumTerrainHeight (getMinimumMaximumHeights env
                   (computeRectangle env
                      ((options_after S)\<lparr>opt_extrudedHeight :=
                         opt_extrudedHeight (this_options this)\<rparr>)))))
            else resolved)
       \<and> S = setOptions env start entity stripe epoch
       \<and> (sampledFields stripe epoch = sampledFields stripe time \<longrightarrow>
            setOptions env start entity stripe time = S
          \<and> (\<forall>dyn.
                thrown (setOptions env dyn entity stripe time) = None
              \<and> opt_height (options_after (setOptions env dyn entity stripe time)) =
                  opt_height (options_after S)
              \<and> opt_offsetAttribute (options_after (setOptions env dyn entity stripe time)) =
                  opt_offsetAttribute (options_after S)
              \<and> (resolved \<noteq> Some (GroundGeometryUpdater_CLAMP_TO_GROUND env) \<or>
                  rectangle_reads_resolved_shape env \<longrightarrow>
                    opt_extrudedHeight (options_after (setOptions env dyn entity stripe time)) =
                      opt_extrudedHeight (options_after S)))))"
proof -
  have t: "thrown (setStaticOptions env this entity stripe) = None"
    using p w by (simp add: setStaticOptions_thrown)
  note f = setStaticOptions_frame [OF p w] setStaticOptions_shape [OF p w]
  note r = setStaticOptions_offsetAttribute [OF p w] setStaticOptions_height [OF p w]
  note x = setStaticOptions_extrudedHeight [OF p w]
  note d = setStaticOptions_is_setOptions [OF p w]
  have eq: "setOptions env
             \<lparr>dynamicOptions = (this_options this)\<lparr>opt_vertexFormat :=
                Some (if instanceofColorMaterialProperty (this_materialProperty this)
                      then PerInstanceColorAppearance_VERTEX_FORMAT
                      else MaterialSupport_TEXTURED_vertexFormat)\<rparr>\<rparr>
             entity stripe time = setStaticOptions env this entity stripe"
    if "sampledFields stripe (Iso8601_MINIMUM_VALUE env) = sampledFields stripe time"
    using setOptions_samples_only [OF that] d by simp
  show ?thesis
    unfolding Let_def
  proof (intro conjI impI allI)
    show "opt_extrudedHeight (options_after (setStaticOptions env this entity stripe)) =
       (if getGeometryExtrudedHeight env
            (Property_getValueOrUndefined (extrudedHeight stripe) (Iso8601_MINIMUM_VALUE env))
            (Property_getValueOrDefault (extrudedHeightReference stripe)
               (Iso8601_MINIMUM_VALUE env) NONE)
           = Some (GroundGeometryUpdater_CLAMP_TO_GROUND env)
        then Some (JSNumber (minimumTerrainHeight (getMinimumMaximumHeights env
               (computeRectangle env
                  ((options_after (setStaticOptions env this entity stripe))
                     \<lparr>opt_extrudedHeight := opt_extrudedHeight (this_options this)\<rparr>)))))
        else getGeometryExtrudedHeight env
            (Property_getValueOrUndefined (extrudedHeight stripe) (Iso8601_MINIMUM_VALUE env))
            (Property_getValueOrDefault (extrudedHeightReference stripe)
               (Iso8601_MINIMUM_VALUE env) NONE))"
      by (rule x)
  next
    fix dyn
    assume s: "sampledFields stripe (Iso8601_MINIMUM_VALUE env) = sampledFields stripe time"
    show "opt_height (options_after (setOptions env dyn entity stripe time)) =
            opt_height (options_after (setStaticOptions env this entity stripe))"
      by (rule static_dynamic_agree(1) [OF s p w])
    show "opt_offsetAttribute (options_after (setOptions env dyn entity stripe time)) =
            opt_offsetAttribute (options_after (setStaticOptions env this entity stripe))"
      by (rule static_dynamic_agree(2) [OF s p w])
    assume "getGeometryExtrudedHeight env
              (Property_getValueOrUndefined (extrudedHeight stripe) (Iso8601_MINIMUM_VALUE env))
              (Property_getValueOrDefault (extrudedHeightReference stripe)
                 (Iso8601_MINIMUM_VALUE env) NONE)
              \<noteq> Some (GroundGeometryUpdater_CLAMP_TO_GROUND env) \<or>
            rectangle_reads_resolved_shape env"
    then show "opt_extrudedHeight (options_after (setOptions env dyn entity stripe time)) =
            opt_extrudedHeight (options_after (setStaticOptions env this entity stripe))"
      by (rule static_dynamic_agree(3) [OF s p w])
  qed (simp_all only: t f r d [symmetric] eq setOptions_thrown)
qed

text \<open>
  C4. For a descriptor whose positions and width properties are bound, the static pass does
  not throw and stores the vertex format of the material and every field as sampled at the
  minimum-time epoch: the four shape fields as sampled, and the offset attribute, the height
  and the extruded height as resolved from the epoch samples. It is the dynamic pass run at
  the epoch on the same options once the vertex format is stored. When the descriptor samples
  at a time as it does at the epoch, the dynamic pass at that time, started from those
  options, leaves the same options and makes the same lookups; started from any options it
  does not throw and resolves the same height and offset attribute, and the same extruded
  height when the resolved extrusion is not the sentinel or the bounding rectangle is read
  off the fields both passes resolve. When positions or width is not bound, the static pass
  throws a \<open>TypeError\<close> with the height, the extruded height and the offset attribute left
  as they were and no lookup made, where the dynamic pass does not throw.
\<close>

theorem static_pass_is_dynamic_pass_at_epoch:
  "(positions stripe = None \<or> width stripe = None \<longrightarrow>
      thrown (setStaticOptions env this entity stripe) = Some TypeError
    \<and> terrainQueries (setStaticOptions env this entity stripe) = []
    \<and> opt_height (options_after (setStaticOptions env this entity stripe)) =
        opt_height (this_options this)
    \<and> opt_extrudedHeight (options_after (setStaticOptions env this entity stripe)) =
        opt_extrudedHeight (this_options this)
    \<and> opt_offsetAttribute (options_after (setStaticOptions env this entity stripe)) =
        opt_offsetAttribute (this_options this)
    \<and> thrown (setOptions env dyn' entity stripe time) = None)
   \<and> (positions stripe \<noteq> None \<and> width stripe \<noteq> None \<longrightarrow>
   (let S = setStaticOptions env this entity stripe;
             epoch = Iso8601_MINIMUM_VALUE env;
             format = Some (if instanceofColorMaterialProperty (this_materialProperty this)
                            then PerInstanceColorAppearance_VERTEX_FORMAT
                            else MaterialSupport_TEXTURED_vertexFormat);
             start = \<lparr>dynamicOptions = (this_options this)\<lparr>opt_vertexFormat := format\<rparr>\<rparr>;
             heightValue =
               (if defined (Property_getValueOrUndefined (extrudedHeight stripe) epoch) \<and>
                   \<not> defined (Property_getValueOrUndefined (height stripe) epoch)
                then Some 0 else Property_getValueOrUndefined (height stripe) epoch);
             resolved = getGeometryExtrudedHeight env
               (Property_getValueOrUndefined (extrudedHeight stripe) epoch)
               (Property_getValueOrDefault (extrudedHeightReference stripe) epoch NONE)
         in thrown S = None
          \<and> opt_id (options_after S) = opt_id (this_options this)
          \<and> opt_vertexFormat (options_after S) = format
          \<and> opt_positions (options_after S) = Property_getValueOrUndefined (positions stripe) epoch
          \<and> opt_width (options_after S) = Property_getValueOrUndefined (width stripe) epoch
          \<and> opt_granularity (options_after S) = Property_getValueOrUndefined (granularity stripe) epoch
          \<and> opt_cornerType (options_after S) = Property_getValueOrUndefined (cornerType stripe) epoch
          \<and> opt_offsetAttribute (options_after S) =
              computeGeometryOffsetAttribute env heightValue
                (Property_getValueOrDefault (heightReference stripe) epoch NONE)
                (Property_getValueOrUndefined (extrudedHeight stripe) epoch)
                (Property_getValueOrDefault (extrudedHeightReference stripe) epoch NONE)
          \<and> opt_height (options_after S) =
              getGeometryHeight env heightValue
                (Property_getValueOrDefault (heightReference stripe) epoch NONE)
          \<and> opt_extrudedHeight (options_after S) =
              (if resolved = Some (GroundGeometryUpdater_CLAMP_TO_GROUND env)
               then Some (JSNumber (minimumTerrainHeight (getMinimumMaximumHeights env
                      (computeRectangle env
                         ((options_after S)\<lparr>opt_extrudedHeight :=
                            opt_extrudedHeight (this_options this)\<rparr>)))))
               else resolved)
          \<and> S = setOptions env start entity stripe epoch
          \<and> (sampledFields stripe epoch = sampledFields stripe time \<longrightarrow>
               setOptions env start entity stripe time = S
             \<and> (\<forall>dyn.
                   thrown (setOptions env dyn entity stripe time) = None
                 \<and> opt_height (options_after (setOptions env dyn entity stripe time)) =
                     opt_height (options_after S)
                 \<and> opt_offsetAttribute (options_after (setOptions env dyn entity stripe time)) =
                     opt_offsetAttribute (options_after S)
                 \<and> (resolved \<noteq> Some (GroundGeometryUpdater_CLAMP_TO_GROUND env) \<or>
                     rectangle_reads_resolved_shape env \<longrightarrow>
                       opt_extrudedHeight (options_after (setOptions env dyn entity stripe time)) =
                         opt_extrudedHeight (options_after S))))))"
proof (intro conjI impI)
  assume "positions stripe = None \<or> width stripe = None"
  then show "thrown (setStaticOptions env this entity stripe) = Some TypeError"
    by (simp add: setStaticOptions_thrown)
  show "thrown (setOptions env dyn' entity stripe time) = None"
    by (rule setOptions_thrown)
  assume u: "positions stripe = None \<or> width stripe = None"
  show "terrainQueries (setStaticOptions env this entity stripe) = []"
    using u by (cases "positions stripe") (auto simp: setStaticOptions_def Let_def)
  show "opt_height (options_after (setStaticOptions env this entity stripe)) =
        opt_height (this_options this)"
    using u by (cases "positions stripe") (auto simp: setStaticOptions_def Let_def)
  show "opt_extrudedHeight (options_after (setStaticOptions env this entity stripe)) =
        opt_extrudedHeight (this_options this)"
    using u by (cases "positions stripe") (auto simp: setStaticOptions_def Let_def)
  show "opt_offsetAttribute (options_after (setStaticOptions env this entity stripe)) =
        opt_offsetAttribute (this_options this)"
    using u by (cases "positions stripe") (auto simp: setStaticOptions_def Let_def)
next
  assume "positions stripe \<noteq> None \<and> width stripe \<noteq> None"
  then obtain pp wp where "positions stripe = Some pp" and "width stripe = Some wp"
    by auto
  then show
    "(let S = setStaticOptions env this entity stripe;
          epoch = Iso8601_MINIMUM_VALUE env;
          format = Some (if instanceofColorMaterialProperty (this_materialProperty this)
                         then PerInstanceColorAppearance_VERTEX_FORMAT
                         else MaterialSupport_TEXTURED_vertexFormat);
          start = \<lparr>dynamicOptions = (this_options this)\<lparr>opt_vertexFormat := format\<rparr>\<rparr>;
          heightValue =
            (if defined (Property_getValueOrUndefined (extrudedHeight stripe) epoch) \<and>
                \<not> defined (Property_getValueOrUndefined (height stripe) epoch)
             then Some 0 else Property_getValueOrUndefined (height stripe) epoch);
          resolved = getGeometryExtrudedHeight env
            (Property_getValueOrUndefined (extrudedHeight stripe) epoch)
            (Property_getValueOrDefault (extrudedHeightReference stripe) epoch NONE)
      in thrown S = None
       \<and> opt_id (options_after S) = opt_id (this_options this)
       \<and> opt_vertexFormat (options_after S) = format
       \<and> opt_positions (options_after S) = Property_getValueOrUndefined (positions stripe) epoch
       \<and> opt_width (options_after S) = Property_getValueOrUndefined (width stripe) epoch
       \<and> opt_granularity (options_after S) = Property_getValueOrUndefined (granularity stripe) epoch
       \<and> opt_cornerType (options_after S) = Property_getValueOrUndefined (cornerType stripe) epoch
       \<and> opt_offsetAttribute (options_after S) =
           computeGeometryOffsetAttribute env heightValue
             (Property_getValueOrDefault (heightReference stripe) epoch NONE)
             (Property_getValueOrUndefined (extrudedHeight stripe) epoch)
             (Property_getValueOrDefault (extrudedHeightReference stripe) epoch NONE)
       \<and> opt_height (options_after S) =
           getGeometryHeight env heightValue
             (Property_getValueOrDefault (heightReference stripe) epoch NONE)
       \<and> opt_extrudedHeight (options_after S) =
           (if resolved = Some (GroundGeometryUpdater_CLAMP_TO_GROUND env)
            then Some (JSNumber (minimumTerrainHeight (getMinimumMaximumHeights env
                   (computeRectangle env
                      ((options_after S)\<lparr>opt_extrudedHeight :=
                         opt_extrudedHeight (this_options this)\<rparr>)))))
            else resolved)
       \<and> S = setOptions env start entity stripe epoch
       \<and> (sampledFields stripe epoch = sampledFields stripe time \<longrightarrow>
            setOptions env start entity stripe time = S
          \<and> (\<forall>dyn.
                thrown (setOptions env dyn entity stripe time) = None
              \<and> opt_height (options_after (setOptions env dyn entity stripe time)) =
                  opt_height (options_after S)
              \<and> opt_offsetAttribute (options_after (setOptions env dyn entity stripe time)) =
                  opt_offsetAttribute (options_after S)
              \<and> (resolved \<noteq> Some (GroundGeometryUpdater_CLAMP_TO_GROUND env) \<or>
                  rectangle_reads_resolved_shape env \<longrightarrow>
                    opt_extrudedHeight (options_after (setOptions env dyn entity stripe time)) =
                      opt_extrudedHeight (options_after S)))))"
    by (rule static_pass_bound)
qed

lemma moving_stripe_samples:
  "sampledFields moving_stripe (Iso8601_MINIMUM_VALUE example_collaborators) =
     sampledFields moving_stripe 7"
  by (simp add: sampledFields_def example_defs Property_getValueOrUndefined_def
        Property_getValueOrDefault_def)

lemma example_rectangle: "rectangle_reads_resolved_shape example_collaborators"
  by (simp add: rectangle_reads_resolved_shape_def example_collaborators_def)

theorem static_pass_is_dynamic_pass_at_epoch_witness:
  "sampledFields moving_stripe (Iso8601_MINIMUM_VALUE example_collaborators) =
     sampledFields moving_stripe 7
   \<and> rectangle_reads_resolved_shape example_collaborators
   \<and> thrown (setStaticOptions example_collaborators (scenario_updater moving_stripe True)
        (scenario_entity moving_stripe) moving_stripe) = None
   \<and> opt_positions (options_after
        (setStaticOptions example_collaborators (scenario_updater moving_stripe True)
           (scenario_entity moving_stripe) moving_stripe))
     = Some [Cartesian3 0 0 0, Cartesian3 1 0 0, Cartesian3 2 0 0]
   \<and> opt_height (options_after
        (setStaticOptions example_collaborators (scenario_updater moving_stripe True)
           (scenario_entity moving_stripe) moving_stripe)) = Some (JSNumber 4)
   \<and> opt_extrudedHeight (options_after
        (setStaticOptions example_collaborators (scenario_updater moving_stripe True)
           (scenario_entity moving_stripe) moving_stripe)) = Some (JSNumber (- 100))
   \<and> opt_height (options_after
        (setOptions example_collaborators (scenario_dynamic moving_stripe)
           (scenario_entity moving_stripe) moving_stripe 7)) = Some (JSNumber 4)
   \<and> opt_extrudedHeight (options_after
        (setOptions example_collaborators (scenario_dynamic moving_stripe)
           (scenario_entity moving_stripe) moving_stripe 7)) = Some (JSNumber (- 100))
   \<and> thrown (setStaticOptions example_collaborators
        (scenario_updater unbound_width_stripe True)
        (scenario_entity unbound_width_stripe) unbound_width_stripe) = Some TypeError"
proof -
  let ?S = "setStaticOptions example_collaborators (scenario_updater moving_stripe True)
              (scenario_entity moving_stripe) moving_stripe"
  have "positions unbound_width_stripe = None \<or> width unbound_width_stripe = None"
    by (simp add: unbound_width_stripe_def)
  note static_pass_is_dynamic_pass_at_epoch
         [where env = example_collaborators and stripe = unbound_width_stripe
            and this = "scenario_updater unbound_width_stripe True"
            and entity = "scenario_entity unbound_width_stripe",
          THEN conjunct1, THEN mp, OF this, THEN conjunct1]
  note u = this
  let ?D = "setOptions example_collaborators (scenario_dynamic moving_stripe)
              (scenario_entity moving_stripe) moving_stripe 7"
  have p: "positions moving_stripe =
             Some (ConstantProperty [Cartesian3 0 0 0, Cartesian3 1 0 0, Cartesian3 2 0 0])"
    and w: "width moving_stripe = Some (ConstantProperty 2)"
    by (simp_all add: moving_stripe_def scenarioA_stripe_def empty_StripeGraphics_def)
  have b: "positions moving_stripe \<noteq> None \<and> width moving_stripe \<noteq> None"
    using p w by simp
  note T = static_pass_is_dynamic_pass_at_epoch
             [where env = example_collaborators and stripe = moving_stripe
                and this = "scenario_updater moving_stripe True"
                and entity = "scenario_entity moving_stripe" and time = 7,
              THEN conjunct2, THEN mp, OF b, unfolded Let_def]
  from T have t: "thrown ?S = None"
    by blast
  from T have v: "opt_positions (options_after ?S) =
      Property_getValueOrUndefined (positions moving_stripe)
        (Iso8601_MINIMUM_VALUE example_collaborators)"
    by blast
  from T moving_stripe_samples example_rectangle
  have d: "opt_height (options_after ?D) = opt_height (options_after ?S)"
          "opt_extrudedHeight (options_after ?D) = opt_extrudedHeight (options_after ?S)"
    by blast+
  have h: "opt_height (options_after ?S) = Some (JSNumber 4)"
    unfolding setStaticOptions_height [OF p w]
    by (simp add: example_defs defined_def Property_getValueOrUndefined_def
          Property_getValueOrDefault_def)
  have x: "opt_extrudedHeight (options_after ?S) = Some (JSNumber (- 100))"
    by (simp add: setStaticOptions_extrudedHeight [OF p w])
       (simp add: example_defs Property_getValueOrUndefined_def Property_getValueOrDefault_def)
  have v': "opt_positions (options_after ?S) =
      Some [Cartesian3 0 0 0, Cartesian3 1 0 0, Cartesian3 2 0 0]"
    using v by (simp add: example_defs Property_getValueOrUndefined_def)
  show ?thesis
    using moving_stripe_samples example_rectangle t v' h x d u by simp
qed

text \<open>
  Without the restriction to bound positions and width the two passes differ. A stripe with
  an extrusion clamped to the ground and no width property samples alike at the epoch and at
  time 5; the static pass throws on the missing width and has stored no height and no
  extruded height, the dynamic pass stores height 0 and the minimum terrain height.
\<close>

theorem static_pass_is_dynamic_pass_at_epoch_counterexample:
  "sampledFields unbound_width_stripe (Iso8601_MINIMUM_VALUE example_collaborators) =
     sampledFields unbound_width_stripe 5
   \<and> thrown (setStaticOptions example_collaborators (scenario_updater unbound_width_stripe True)
        (scenario_entity unbound_width_stripe) unbound_width_stripe) = Some TypeError
   \<and> opt_height (options_after
        (setStaticOptions example_collaborators (scenario_updater unbound_width_stripe True)
           (scenario_entity unbound_width_stripe) unbound_width_stripe)) = None
   \<and> opt_extrudedHeight (options_after
        (setStaticOptions example_collaborators (scenario_updater unbound_width_stripe True)
           (scenario_entity unbound_width_stripe) unbound_width_stripe)) = None
   \<and> thrown (setOptions example_collaborators (scenario_dynamic unbound_width_stripe)
        (scenario_entity unbound_width_stripe) unbound_width_stripe 5) = None
   \<and> opt_height (options_after
        (setOptions example_collaborators (scenario_dynamic unbound_width_stripe)
           (scenario_entity unbound_width_stripe) unbound_width_stripe 5)) = Some (JSNumber 0)
   \<and> opt_extrudedHeight (options_after
        (setOptions example_collaborators (scenario_dynamic unbound_width_stripe)
           (scenario_entity unbound_width_stripe) unbound_width_stripe 5))
     = Some (JSNumber (- 100))
   \<and> opt_height (options_after
        (setOptions example_collaborators (scenario_dynamic unbound_width_stripe)
           (scenario_entity unbound_width_stripe) unbound_width_stripe 5))
     \<noteq> opt_height (options_after
        (setStaticOptions example_collaborators (scenario_updater unbound_width_stripe True)
           (scenario_entity unbound_width_stripe) unbound_width_stripe))"
proof -
  let ?S = "setStaticOptions example_collaborators (scenario_updater unbound_width_stripe True)
              (scenario_entity unbound_width_stripe) unbound_width_stripe"
  let ?D = "setOptions example_collaborators (scenario_dynamic unbound_width_stripe)
              (scenario_entity unbound_width_stripe) unbound_width_stripe 5"
  have e: "sampledFields unbound_width_stripe (Iso8601_MINIMUM_VALUE example_collaborators) =
     sampledFields unbound_width_stripe 5"
    by (simp add: sampledFields_def example_defs Property_getValueOrUndefined_def
          Property_getValueOrDefault_def)
  have s: "thrown ?S = Some TypeError"
    by (simp add: setStaticOptions_thrown example_defs)
  have sh: "opt_height (options_after ?S) = None" "opt_extrudedHeight (options_after ?S) = None"
    by (simp_all add: setStaticOptions_def Let_def example_defs)
  have dh: "opt_height (options_after ?D) = Some (JSNumber 0)"
    unfolding setOptions_height
    by (simp add: example_defs defined_def Property_getValueOrUndefined_def
          Property_getValueOrDefault_def)
  have dx: "opt_extrudedHeight (options_after ?D) = Some (JSNumber (- 100))"
    by (simp add: setOptions_extrudedHeight)
       (simp add: example_defs Property_getValueOrUndefined_def Property_getValueOrDefault_def)
  show ?thesis
    using e s sh dh dx by (simp add: setOptions_thrown)
qed

text \<open>
  The condition on the rectangle is not idle. The static pass stores the vertex format before
  it asks for the rectangle of its options and the dynamic pass never stores one, so a
  rectangle that depended on the vertex format would part the two extruded heights even for a
  stripe with every property bound and constant.
\<close>

lemma vertexFormat_reaches_rectangle:
  "opt_extrudedHeight (options_after
     (setStaticOptions format_reading_collaborators (scenario_updater clamped_stripe True)
        (scenario_entity clamped_stripe) clamped_stripe)) = Some (JSNumber 1)
   \<and> opt_extrudedHeight (options_after
        (setOptions format_reading_collaborators (scenario_dynamic clamped_stripe)
           (scenario_entity clamped_stripe) clamped_stripe 5)) = Some (JSNumber 0)"
  by (simp add: setStaticOptions_def setOptions_def Let_def example_defs
        Property_getValueOrUndefined_def Property_getValueOrDefault_def)

section \<open>Merging descriptors\<close>

lemma defaultValue_merged: "spec_merged_field a b (defaultValue a b)"
  by (cases a) (simp_all add: spec_merged_field_def defaultValue_def defined_def)

text \<open>
  C10. \<open>merge\<close> with an undefined source throws \<open>DeveloperError\<close> and leaves the descriptor
  as it was; with a defined source it returns, every field that was defined keeps its
  property and every field that was undefined takes the property of the source.
\<close>

theorem merge_fills_only_undefined_fields:
  "merge this None = (Inl (DeveloperError ''source is required.''), this)
   \<and> fst (merge this (Some source)) = Inr ()
   \<and> (let after = snd (merge this (Some source)) in
        spec_merged_field (show this) (show source) (show after) \<and>
        spec_merged_field (positions this) (positions source) (positions after) \<and>
        spec_merged_field (width this) (width source) (width after) \<and>
        spec_merged_field (height this) (height source) (height after) \<and>
        spec_merged_field (heightReference this) (heightReference source) (heightReference after) \<and>
        spec_merged_field (extrudedHeight this) (extrudedHeight source) (extrudedHeight after) \<and>
        spec_merged_field (extrudedHeightReference this) (extrudedHeightReference source)
          (extrudedHeightReference after) \<and>
        spec_merged_field (cornerType this) (cornerType source) (cornerType after) \<and>
        spec_merged_field (granularity this) (granularity source) (granularity after) \<and>
        spec_merged_field (fill this) (fill source) (fill after) \<and>
        spec_merged_field (material this) (material source) (material after) \<and>
        spec_merged_field (outline this) (outline source) (outline after) \<and>
        spec_merged_field (outlineColor this) (outlineColor source) (outlineColor after) \<and>
        spec_merged_field (outlineWidth this) (outlineWidth source) (outlineWidth after) \<and>
        spec_merged_field (shadows this) (shadows source) (shadows after) \<and>
        spec_merged_field (distanceDisplayCondition this) (distanceDisplayCondition source)
          (distanceDisplayCondition after) \<and>
        spec_merged_field (classificationType this) (classificationType source)
          (classificationType after) \<and>
        spec_merged_field (zIndex this) (zIndex source) (zIndex after))"
  by (simp add: merge_def Let_def defaultValue_merged)

theorem merge_fills_only_undefined_fields_witness:
  "width (snd (merge scenarioD_stripe (Some moving_stripe))) = width scenarioD_stripe
   \<and> height (snd (merge scenarioD_stripe (Some moving_stripe))) = height moving_stripe
   \<and> spec_merged_field (height scenarioD_stripe) (height moving_stripe)
       (height (snd (merge scenarioD_stripe (Some moving_stripe))))"
  using merge_fills_only_undefined_fields [of scenarioD_stripe moving_stripe]
  by (simp add: example_defs spec_merged_field_def defined_def Let_def)

end
